theory Spec2Isabelle
  imports Complex_Main
begin

section \<open>EasyPDF: a write cursor over jsPDF\<close>

text \<open>
  The class \<open>EasyPDF\<close> of \<open>src/index.js\<close> keeps a write cursor
  (\<open>#writeX\<close>, \<open>#writeY\<close>), the current page number and the height of the last
  line, and delegates all drawing to a jsPDF instance. The embedding below follows the
  latest revision of the class (the one with \<open>addImage\<close>); of the intermediate revision
  (the file without \<open>addImage\<close>) only the pagination guard is taken up, because it is the
  one that returns a value.

  JavaScript numbers are modelled as exact reals: the development is about the layout
  arithmetic, not about rounding. Strings are lists of characters, one list element per
  character the \<open>for (const c of text)\<close> loop visits.
\<close>

subsection \<open>The collaborator\<close>

text \<open>
  The jsPDF instance is an external object. Its commands are recorded, in call order, in
  the field \<open>pdf\<close> of the state; its queries (text measurement, line splitting, image
  properties, page size) are parameters of the model. \<open>getTextWidth\<close> and
  \<open>splitTextToSize\<close> depend on the font size jsPDF currently has, which \<open>addText\<close>
  sets right before it measures, so they take that size as their first argument.
\<close>

datatype pdf_call =
    PdfNew string
  | PdfSetFont string
  | PdfSetFontSize real
  | PdfSetTextColor "real list"
  | PdfSetLineWidth real
  | PdfSetDrawColor "real list"
  | PdfText string real real
  | PdfLine real real real real
  | PdfAddImage string string real real real real
  | PdfAddPage
  | PdfSetPage nat
  | PdfSave string

record jsPDF_lib =
  getTextWidth :: "real \<Rightarrow> string \<Rightarrow> real"
  splitTextToSize :: "real \<Rightarrow> string \<Rightarrow> real \<Rightarrow> string list"
  getImageProperties :: "string \<Rightarrow> real \<times> real"
  pageSize :: "string \<Rightarrow> real \<times> real"

text \<open>What a method hands back to its caller.\<close>

datatype js_return = ReturnsThis | ReturnsUndefined | ReturnsBool bool

subsection \<open>The instance\<close>

text \<open>
  The private fields of the class. \<open>#fontName\<close> is left out: the constructor assigns
  it and nothing reads it.
\<close>

record easypdf =
  pdf :: "pdf_call list"
  pageIndex :: nat
  writeY :: real
  writeX :: real
  lastLineHeight :: real
  pageWidth :: real
  pageHeight :: real
  pagePaddingX :: real
  pagePaddingY :: real
  fontSize :: real
  color :: "real list"

text \<open>
  An options object: a key the caller leaves out is \<open>None\<close>, and the spread
  \<open>{ key: default, ...options }\<close> then keeps the default.
\<close>

definition orDefault :: "'a \<Rightarrow> 'a option \<Rightarrow> 'a" where
  "orDefault d v = (case v of None \<Rightarrow> d | Some x \<Rightarrow> x)"

record ctor_options =
  c_size :: "string option"
  c_fontSize :: "real option"
  c_fontName :: "string option"
  c_pagePaddingX :: "real option"
  c_pagePaddingY :: "real option"
  c_color :: "real list option"

record text_options =
  o_fontSize :: "real option"
  o_color :: "real list option"
  o_left :: "real option"
  o_right :: "real option"
  o_article :: "bool option"

record line_options =
  l_top :: "real option"
  l_bottom :: "real option"
  l_lineWidth :: "real option"
  l_color :: "real list option"

datatype height_spec = Auto | Height real

record image_options =
  i_top :: "real option"
  i_bottom :: "real option"
  i_width :: "real option"
  i_height :: "height_spec option"
  i_format :: "string option"

definition pdf_do :: "pdf_call \<Rightarrow> easypdf \<Rightarrow> easypdf" where
  "pdf_do c s = s\<lparr>pdf := pdf s @ [c]\<rparr>"

definition clientWidth :: "easypdf \<Rightarrow> real" where
  "clientWidth s = pageWidth s - pagePaddingX s * 2"

definition clientHeight :: "easypdf \<Rightarrow> real" where
  "clientHeight s = pageHeight s - pagePaddingY s * 2"

text \<open>
  The constructor. The field initialisers run first (page 1, colour \<open>[10, 10, 10]\<close>);
  the \<open>color\<close> option is merged into the options object but never stored.
\<close>

definition constructor :: "jsPDF_lib \<Rightarrow> ctor_options \<Rightarrow> easypdf" where
  "constructor lib options =
     (let size = orDefault ''a4'' (c_size options);
          fontSize0 = orDefault 16 (c_fontSize options);
          fontName0 = orDefault ''a'' (c_fontName options);
          padX = orDefault 10 (c_pagePaddingX options);
          padY = orDefault 10 (c_pagePaddingY options)
      in \<lparr> pdf = [PdfNew size, PdfSetFont fontName0, PdfSetFontSize fontSize0],
           pageIndex = 1,
           writeY = padY,
           writeX = padX,
           lastLineHeight = 0,
           pageWidth = fst (pageSize lib size),
           pageHeight = snd (pageSize lib size),
           pagePaddingX = padX,
           pagePaddingY = padY,
           fontSize = fontSize0,
           color = [10, 10, 10] \<rparr>)"

subsection \<open>The pagination guard\<close>

text \<open>\<open>#checkWriteY\<close> of \<open>src/index.js\<close>: it has no \<open>return\<close> statement.\<close>

definition checkWriteY :: "real \<Rightarrow> easypdf \<Rightarrow> js_return \<times> easypdf" where
  "checkWriteY height s =
     (if writeY s + height > pageHeight s - pagePaddingY s then
        (let s1 = pdf_do PdfAddPage s;
             s2 = s1\<lparr>pageIndex := Suc (pageIndex s1)\<rparr>;
             s3 = pdf_do (PdfSetPage (pageIndex s2)) s2;
             s4 = s3\<lparr>writeY := pagePaddingY s3\<rparr>
         in (ReturnsUndefined, s4))
      else (ReturnsUndefined, s))"

text \<open>
  \<open>#checkWriteY\<close> of the intermediate revision: the same steps, then \<open>return false\<close>
  inside the branch and \<open>return true\<close> after it.
\<close>

definition checkWriteY_v2 :: "real \<Rightarrow> easypdf \<Rightarrow> js_return \<times> easypdf" where
  "checkWriteY_v2 height s =
     (if writeY s + height > pageHeight s - pagePaddingY s then
        (let s1 = pdf_do PdfAddPage s;
             s2 = s1\<lparr>pageIndex := Suc (pageIndex s1)\<rparr>;
             s3 = pdf_do (PdfSetPage (pageIndex s2)) s2;
             s4 = s3\<lparr>writeY := pagePaddingY s3\<rparr>
         in (ReturnsBool False, s4))
      else (ReturnsBool True, s))"

definition getLineHeight :: "real \<Rightarrow> real" where
  "getLineHeight fs = fs * 0.55"

definition getTextWriteY :: "real \<Rightarrow> easypdf \<Rightarrow> real" where
  "getTextWriteY fs s = writeY s + fs * 0.4"

text \<open>
  The line break every block operation starts with:
  \<open>if (writeX !== pagePaddingX) { writeX = pagePaddingX; writeY += lastLineHeight }\<close>.
\<close>

definition breakLine :: "easypdf \<Rightarrow> easypdf" where
  "breakLine s =
     (if writeX s \<noteq> pagePaddingX s
      then s\<lparr>writeX := pagePaddingX s, writeY := writeY s + lastLineHeight s\<rparr>
      else s)"

subsection \<open>Text\<close>

text \<open>
  The loop that cuts the first line: \<open>for (const c of text)\<close> measures
  \<open>firstLine + c\<close>, stops at the first character that makes the fragment wider than
  \<open>remainWidth\<close>, and otherwise keeps the character and the width.
\<close>

fun firstLineLoop :: "(string \<Rightarrow> real) \<Rightarrow> real \<Rightarrow> string \<Rightarrow> string \<times> real \<Rightarrow> string \<times> real" where
  "firstLineLoop tw remainWidth [] (firstLine, firstWidth) = (firstLine, firstWidth)"
| "firstLineLoop tw remainWidth (c # cs) (firstLine, firstWidth) =
     (let width = tw (firstLine @ [c])
      in if width > remainWidth then (firstLine, firstWidth)
         else firstLineLoop tw remainWidth cs (firstLine @ [c], width))"

text \<open>
  The loop over the wrapped remainder: each line moves the cursor down and to the margin,
  paginates, and is drawn; the last one leaves the cursor behind its text.
  (\<open>console.log\<close> is not part of the model.)
\<close>

fun restLines :: "jsPDF_lib \<Rightarrow> real \<Rightarrow> real \<Rightarrow> string list \<Rightarrow> easypdf \<Rightarrow> easypdf" where
  "restLines lib fs lineHeight [] s = s"
| "restLines lib fs lineHeight (t # ts) s =
     (let s1 = s\<lparr>writeY := writeY s + lineHeight\<rparr>;
          s2 = s1\<lparr>writeX := pagePaddingX s1\<rparr>;
          s3 = snd (checkWriteY lineHeight s2);
          s4 = pdf_do (PdfText t (writeX s3) (getTextWriteY fs s3)) s3;
          s5 = (if ts = [] then s4\<lparr>writeX := pagePaddingX s4 + getTextWidth lib fs t\<rparr> else s4)
      in restLines lib fs lineHeight ts s5)"

text \<open>The stages of \<open>addText\<close>, in source order. First the options and the paragraph break.\<close>

definition textFontSize :: "text_options \<Rightarrow> easypdf \<Rightarrow> real" where
  "textFontSize options s = orDefault (fontSize s) (o_fontSize options)"

definition textArticle :: "text_options \<Rightarrow> bool" where
  "textArticle options = orDefault False (o_article options)"

definition addText_begin :: "text_options \<Rightarrow> easypdf \<Rightarrow> easypdf" where
  "addText_begin options s =
     (let s1 = pdf_do (PdfSetFontSize (textFontSize options s)) s;
          s2 = pdf_do (PdfSetTextColor (orDefault (color s) (o_color options))) s1
      in if textArticle options \<and> writeX s2 \<noteq> pagePaddingX s2
         then s2\<lparr>writeX := pagePaddingX s2, writeY := writeY s2 + lastLineHeight s2\<rparr>
         else s2)"

definition remainWidth :: "text_options \<Rightarrow> easypdf \<Rightarrow> real" where
  "remainWidth options s =
     clientWidth s - writeX s - orDefault 0 (o_left options) - pagePaddingX s"

definition firstLineOf :: "jsPDF_lib \<Rightarrow> real \<Rightarrow> real \<Rightarrow> string \<Rightarrow> string \<times> real" where
  "firstLineOf lib fs rw text = firstLineLoop (getTextWidth lib fs) rw text ('''', 0)"

text \<open>Writing the first line: paginate, draw, move right.\<close>

definition addText_first :: "real \<Rightarrow> string \<times> real \<Rightarrow> easypdf \<Rightarrow> easypdf" where
  "addText_first fs fl s =
     (let s1 = snd (checkWriteY (getLineHeight fs) s);
          s2 = pdf_do (PdfText (fst fl) (writeX s1) (getTextWriteY fs s1)) s1
      in s2\<lparr>writeX := writeX s2 + snd fl\<rparr>)"

text \<open>The remainder, when the first line did not take the whole text.\<close>

definition addText_rest :: "jsPDF_lib \<Rightarrow> real \<Rightarrow> string \<Rightarrow> string \<Rightarrow> easypdf \<Rightarrow> easypdf" where
  "addText_rest lib fs text firstLine s =
     (if length firstLine \<noteq> length text
      then restLines lib fs (getLineHeight fs)
             (splitTextToSize lib fs (drop (length firstLine) text) (clientWidth s)) s
      else s)"

text \<open>The end of the call: the break of a paragraph, or the right margin and the wrap.\<close>

definition addText_end :: "real \<Rightarrow> text_options \<Rightarrow> easypdf \<Rightarrow> easypdf" where
  "addText_end fs options s =
     (let lineHeight = getLineHeight fs;
          s1 = (if textArticle options
                then s\<lparr>writeX := pagePaddingX s, writeY := writeY s + lineHeight\<rparr>
                else (let s2 = s\<lparr>writeX := writeX s + orDefault 0 (o_right options)\<rparr>
                      in if writeX s2 > clientWidth s2 + real (pageIndex s2)
                         then s2\<lparr>writeX := pagePaddingX s2, writeY := writeY s2 + lineHeight\<rparr>
                         else s2))
      in s1\<lparr>lastLineHeight := lineHeight\<rparr>)"

text \<open>The state \<open>addText\<close> has reached once every line of the text is drawn.\<close>

definition addText_rendered :: "jsPDF_lib \<Rightarrow> string \<Rightarrow> text_options \<Rightarrow> easypdf \<Rightarrow> easypdf" where
  "addText_rendered lib text options s =
     (let fs = textFontSize options s;
          s1 = addText_begin options s;
          fl = firstLineOf lib fs (remainWidth options s1) text;
          s2 = addText_first fs fl s1
      in addText_rest lib fs text (fst fl) s2)"

definition addText :: "jsPDF_lib \<Rightarrow> string \<Rightarrow> text_options \<Rightarrow> easypdf \<Rightarrow> js_return \<times> easypdf" where
  "addText lib text options s =
     (ReturnsThis, addText_end (textFontSize options s) options (addText_rendered lib text options s))"

definition addArticle :: "jsPDF_lib \<Rightarrow> string \<Rightarrow> text_options \<Rightarrow> easypdf \<Rightarrow> js_return \<times> easypdf" where
  "addArticle lib text options s = addText lib text (options\<lparr>o_article := Some True\<rparr>) s"

subsection \<open>Rule, image, space, save\<close>

definition addLine :: "line_options \<Rightarrow> easypdf \<Rightarrow> js_return \<times> easypdf" where
  "addLine options s =
     (let top = orDefault 4 (l_top options);
          bottom = orDefault 4 (l_bottom options);
          lineWidth = orDefault 0.5 (l_lineWidth options);
          col = orDefault (color s) (l_color options);
          s1 = breakLine s;
          s2 = snd (checkWriteY (top + lineWidth) s1);
          s3 = pdf_do (PdfSetLineWidth lineWidth) s2;
          s4 = pdf_do (PdfSetDrawColor col) s3;
          s5 = pdf_do (PdfLine (pagePaddingX s4) (writeY s4 + top)
                               (pageWidth s4 - pagePaddingX s4) (writeY s4 + top)) s4
      in (ReturnsThis, s5\<lparr>writeY := writeY s5 + (top + lineWidth + bottom)\<rparr>))"

text \<open>
  \<open>addImage\<close> merges \<open>top\<close>, \<open>bottom\<close> and \<open>format\<close> into its options and then reads
  none of them; its body ends without a \<open>return\<close>.
\<close>

definition imageHeight :: "jsPDF_lib \<Rightarrow> string \<Rightarrow> image_options \<Rightarrow> easypdf \<Rightarrow> real" where
  "imageHeight lib img options s =
     (case orDefault Auto (i_height options) of
        Auto \<Rightarrow> (orDefault (clientWidth s) (i_width options) * snd (getImageProperties lib img))
                 / fst (getImageProperties lib img)
      | Height h \<Rightarrow> h)"

definition addImage :: "jsPDF_lib \<Rightarrow> string \<Rightarrow> image_options \<Rightarrow> easypdf \<Rightarrow> js_return \<times> easypdf" where
  "addImage lib img options s =
     (let width = orDefault (clientWidth s) (i_width options);
          height = imageHeight lib img options s;
          s1 = breakLine s;
          s2 = s1\<lparr>writeX := (pageWidth s1 - width) / 2\<rparr>;
          s3 = snd (checkWriteY height s2);
          s4 = pdf_do (PdfAddImage img ''PNG'' (writeX s3) (writeY s3) width height) s3;
          s5 = s4\<lparr>writeX := pagePaddingX s4\<rparr>
      in (ReturnsUndefined, s5\<lparr>writeY := writeY s5 + height\<rparr>))"

definition addSpace :: "real option \<Rightarrow> easypdf \<Rightarrow> js_return \<times> easypdf" where
  "addSpace h s =
     (let height = orDefault 5 h;
          s1 = breakLine s;
          s2 = snd (checkWriteY height s1);
          s3 = s2\<lparr>writeY := writeY s2 + height\<rparr>
      in (ReturnsThis, s3\<lparr>writeX := pagePaddingX s3\<rparr>))"

definition save :: "string \<Rightarrow> easypdf \<Rightarrow> js_return \<times> easypdf" where
  "save filename s = (ReturnsThis, pdf_do (PdfSave filename) s)"

subsection \<open>Sequences of calls\<close>

text \<open>
  A script is a list of method calls. Written as separate statements
  (\<open>doc.addText(..); doc.addLine(..); ...\<close>) every call runs on the instance and the
  returned values are dropped. Written as one chain (\<open>doc.addText(..).addLine(..)\<close>) each
  call runs on what the previous one returned, and a call on \<open>undefined\<close> throws a
  TypeError.
\<close>

datatype call =
    AddText string text_options
  | AddArticle string text_options
  | AddLine line_options
  | AddImage string image_options
  | AddSpace "real option"
  | SaveAs string

fun perform :: "jsPDF_lib \<Rightarrow> call \<Rightarrow> easypdf \<Rightarrow> js_return \<times> easypdf" where
  "perform lib (AddText text options) s = addText lib text options s"
| "perform lib (AddArticle text options) s = addArticle lib text options s"
| "perform lib (AddLine options) s = addLine options s"
| "perform lib (AddImage img options) s = addImage lib img options s"
| "perform lib (AddSpace h) s = addSpace h s"
| "perform lib (SaveAs filename) s = save filename s"

fun statements :: "jsPDF_lib \<Rightarrow> call list \<Rightarrow> easypdf \<Rightarrow> easypdf" where
  "statements lib [] s = s"
| "statements lib (c # cs) s = statements lib cs (snd (perform lib c s))"

datatype js_error = TypeError

fun chain :: "jsPDF_lib \<Rightarrow> call list \<Rightarrow> js_return \<times> easypdf \<Rightarrow> js_error + js_return \<times> easypdf" where
  "chain lib [] r = Inr r"
| "chain lib (c # cs) (ReturnsThis, s) = chain lib cs (perform lib c s)"
| "chain lib (c # cs) (ReturnsUndefined, s) = Inl TypeError"
| "chain lib (c # cs) (ReturnsBool b, s) = Inl TypeError"

subsection \<open>A collaborator to run examples with\<close>

text \<open>
  For the concrete runs below the collaborator is a fixed-pitch stand-in: an A4 page of
  210 by 297 mm, every character one eighth of the (absolute) font size wide, lines split after as
  many characters as fit the given width, and every image twice as wide as high.
\<close>

fun splitEvery :: "nat \<Rightarrow> string \<Rightarrow> string \<Rightarrow> string list" where
  "splitEvery n cur [] = [cur]"
| "splitEvery n cur (c # cs) =
     (if length cur < max 1 n then splitEvery n (cur @ [c]) cs
      else cur # splitEvery n [c] cs)"

definition fixedPitch :: jsPDF_lib where
  "fixedPitch =
     \<lparr> getTextWidth = (\<lambda>fs t. \<bar>fs\<bar> * real (length t) / 8),
       splitTextToSize = (\<lambda>fs t w. splitEvery (nat \<lfloor>w * 8 / \<bar>fs\<bar>\<rfloor>) [] t),
       getImageProperties = (\<lambda>img. (2, 1)),
       pageSize = (\<lambda>size. (210, 297)) \<rparr>"

definition noCtorOptions :: ctor_options where
  "noCtorOptions = \<lparr> c_size = None, c_fontSize = None, c_fontName = None,
                     c_pagePaddingX = None, c_pagePaddingY = None, c_color = None \<rparr>"

definition noTextOptions :: text_options where
  "noTextOptions = \<lparr> o_fontSize = None, o_color = None, o_left = None,
                     o_right = None, o_article = None \<rparr>"

definition noLineOptions :: line_options where
  "noLineOptions = \<lparr> l_top = None, l_bottom = None, l_lineWidth = None, l_color = None \<rparr>"

definition noImageOptions :: image_options where
  "noImageOptions = \<lparr> i_top = None, i_bottom = None, i_width = None,
                      i_height = None, i_format = None \<rparr>"

text \<open>A rule with every option given: \<open>{top: 6, bottom: 2, lineWidth: 1.5, color: [255, 0, 0]}\<close>.\<close>

definition thickRule :: line_options where
  "thickRule = \<lparr> l_top = Some 6, l_bottom = Some 2, l_lineWidth = Some 1.5,
                  l_color = Some [255, 0, 0] \<rparr>"

text \<open>\<open>new EasyPDF()\<close> on that collaborator: page 1, cursor at (10, 10).\<close>

definition blankA4 :: easypdf where
  "blankA4 = constructor fixedPitch noCtorOptions"

subsection \<open>Notions the properties are stated with\<close>

text \<open>The page geometry and the default style: what no method ever assigns.\<close>

definition config :: "easypdf \<Rightarrow> real \<times> real \<times> real \<times> real \<times> real \<times> real list" where
  "config s = (pageWidth s, pageHeight s, pagePaddingX s, pagePaddingY s, fontSize s, color s)"

text \<open>
  The first-line fragment of a call \<open>addText(text, options)\<close> in state \<open>s\<close>, with its
  recorded width, and the state right after that fragment is written.
\<close>

definition firstFragment :: "jsPDF_lib \<Rightarrow> string \<Rightarrow> text_options \<Rightarrow> easypdf \<Rightarrow> string \<times> real" where
  "firstFragment lib text options s =
     firstLineOf lib (textFontSize options s)
       (remainWidth options (addText_begin options s)) text"

definition afterFirstLine :: "jsPDF_lib \<Rightarrow> string \<Rightarrow> text_options \<Rightarrow> easypdf \<Rightarrow> easypdf" where
  "afterFirstLine lib text options s =
     addText_first (textFontSize options s) (firstFragment lib text options s)
       (addText_begin options s)"

text \<open>A measurer that never shrinks when a text is extended by one more character of it.\<close>

definition monotoneOn :: "(string \<Rightarrow> real) \<Rightarrow> string \<Rightarrow> bool" where
  "monotoneOn tw text =
     (\<forall>j \<le> length text. \<forall>k \<le> j. tw (take k text) \<le> tw (take j text))"

text \<open>
  The cursor is right of the left margin, and, while the page number does not exceed the
  horizontal padding, left of the right margin.
\<close>

definition inBounds :: "easypdf \<Rightarrow> bool" where
  "inBounds s =
     (pagePaddingX s \<le> writeX s
      \<and> (real (pageIndex s) \<le> pagePaddingX s \<and> 2 * pagePaddingX s \<le> pageWidth s
           \<longrightarrow> writeX s \<le> pageWidth s - pagePaddingX s))"

text \<open>Calls whose right margin, where they have one, is not negative.\<close>

fun rightMarginOk :: "call \<Rightarrow> bool" where
  "rightMarginOk (AddText text options) = (0 \<le> orDefault 0 (o_right options))"
| "rightMarginOk (AddArticle text options) = (0 \<le> orDefault 0 (o_right options))"
| "rightMarginOk c = True"

section \<open>Properties\<close>

subsection \<open>Helper facts\<close>

lemma blankA4_eq:
  "blankA4 = \<lparr> pdf = [PdfNew ''a4'', PdfSetFont ''a'', PdfSetFontSize 16],
               pageIndex = 1, writeY = 10, writeX = 10, lastLineHeight = 0,
               pageWidth = 210, pageHeight = 297, pagePaddingX = 10, pagePaddingY = 10,
               fontSize = 16, color = [10, 10, 10] \<rparr>"
  by (simp add: blankA4_def constructor_def noCtorOptions_def fixedPitch_def orDefault_def)

lemma checkWriteY_snd:
  "snd (checkWriteY h s) =
     (if writeY s + h > pageHeight s - pagePaddingY s
      then s\<lparr>pdf := pdf s @ [PdfAddPage, PdfSetPage (Suc (pageIndex s))],
             pageIndex := Suc (pageIndex s), writeY := pagePaddingY s\<rparr>
      else s)"
  by (simp add: checkWriteY_def pdf_do_def Let_def)

lemma config_fields:
  "config a = config b \<Longrightarrow>
     pageWidth a = pageWidth b \<and> pageHeight a = pageHeight b \<and> pagePaddingX a = pagePaddingX b
     \<and> pagePaddingY a = pagePaddingY b \<and> fontSize a = fontSize b \<and> color a = color b
     \<and> clientWidth a = clientWidth b"
  by (simp add: config_def clientWidth_def)

lemma config_checkWriteY: "config (snd (checkWriteY h s)) = config s"
  by (simp add: checkWriteY_snd config_def)

lemma writeX_checkWriteY: "writeX (snd (checkWriteY h s)) = writeX s"
  by (simp add: checkWriteY_snd)

lemma config_breakLine: "config (breakLine s) = config s"
  by (simp add: breakLine_def config_def)

lemma writeX_breakLine: "writeX (breakLine s) = pagePaddingX s"
  by (simp add: breakLine_def)

lemma config_restLines: "config (restLines lib fs lh ts s) = config s"
proof (induction ts arbitrary: s)
  case Nil
  show ?case by simp
next
  case (Cons t ts)
  show ?case
    by (simp add: Let_def Cons.IH config_checkWriteY [unfolded config_def] pdf_do_def)
       (simp add: config_def checkWriteY_snd)
qed

lemma writeX_restLines:
  "ts \<noteq> [] \<Longrightarrow>
   writeX (restLines lib fs lh ts s) = pagePaddingX s + getTextWidth lib fs (last ts)"
proof (induction ts arbitrary: s)
  case Nil
  then show ?case by simp
next
  case (Cons t ts)
  show ?case
  proof (cases "ts = []")
    case True
    then show ?thesis by (simp add: Let_def pdf_do_def checkWriteY_snd)
  next
    case False
    then show ?thesis
      using Cons.IH [OF False] by (simp add: Let_def pdf_do_def checkWriteY_snd)
  qed
qed

lemma pdf_restLines: "\<exists>more. pdf (restLines lib fs lh ts s) = pdf s @ more"
proof (induction ts arbitrary: s)
  case Nil
  show ?case by simp
next
  case (Cons t ts)
  show ?case
    apply (simp add: Let_def)
    apply (rule exE [OF Cons.IH])
    apply (erule ssubst)
    apply (simp add: pdf_do_def checkWriteY_snd)
    done
qed

lemma firstLineLoop_shape:
  "\<exists>n \<le> length cs.
     fst (firstLineLoop tw rw cs (fl, fw)) = fl @ take n cs
     \<and> snd (firstLineLoop tw rw cs (fl, fw)) = (if n = 0 then fw else tw (fl @ take n cs))
     \<and> (\<forall>k. 0 < k \<and> k \<le> n \<longrightarrow> tw (fl @ take k cs) \<le> rw)
     \<and> (n < length cs \<longrightarrow> rw < tw (fl @ take (Suc n) cs))"
proof (induction cs arbitrary: fl fw)
  case Nil
  show ?case by simp
next
  case (Cons c cs)
  show ?case
  proof (cases "tw (fl @ [c]) > rw")
    case True
    then have "fst (firstLineLoop tw rw (c # cs) (fl, fw)) = fl @ take 0 (c # cs)
      \<and> snd (firstLineLoop tw rw (c # cs) (fl, fw)) = (if (0::nat) = 0 then fw else tw (fl @ take 0 (c # cs)))
      \<and> (\<forall>k. 0 < k \<and> k \<le> 0 \<longrightarrow> tw (fl @ take k (c # cs)) \<le> rw)
      \<and> (0 < length (c # cs) \<longrightarrow> rw < tw (fl @ take (Suc 0) (c # cs)))"
      by simp
    then show ?thesis by blast
  next
    case False
    from Cons.IH [of "fl @ [c]" "tw (fl @ [c])"]
    obtain n where n: "n \<le> length cs"
      and f: "fst (firstLineLoop tw rw cs (fl @ [c], tw (fl @ [c]))) = (fl @ [c]) @ take n cs"
      and w: "snd (firstLineLoop tw rw cs (fl @ [c], tw (fl @ [c]))) =
                (if n = 0 then tw (fl @ [c]) else tw ((fl @ [c]) @ take n cs))"
      and a: "\<forall>k. 0 < k \<and> k \<le> n \<longrightarrow> tw ((fl @ [c]) @ take k cs) \<le> rw"
      and b: "n < length cs \<longrightarrow> rw < tw ((fl @ [c]) @ take (Suc n) cs)"
      by blast
    have step: "firstLineLoop tw rw (c # cs) (fl, fw) =
                firstLineLoop tw rw cs (fl @ [c], tw (fl @ [c]))"
      using False by (simp add: Let_def)
    have 1: "Suc n \<le> length (c # cs)" using n by simp
    have 2: "fst (firstLineLoop tw rw (c # cs) (fl, fw)) = fl @ take (Suc n) (c # cs)"
      using f step by simp
    have 3: "snd (firstLineLoop tw rw (c # cs) (fl, fw)) =
               (if Suc n = 0 then fw else tw (fl @ take (Suc n) (c # cs)))"
      using w step by (cases "n = 0") simp_all
    have 4: "\<forall>k. 0 < k \<and> k \<le> Suc n \<longrightarrow> tw (fl @ take k (c # cs)) \<le> rw"
    proof (intro allI impI)
      fix k assume k: "0 < k \<and> k \<le> Suc n"
      then obtain j where j: "k = Suc j" by (cases k) auto
      show "tw (fl @ take k (c # cs)) \<le> rw"
      proof (cases "j = 0")
        case True
        then show ?thesis using False j by simp
      next
        case False
        then have "0 < j \<and> j \<le> n" using k j by simp
        then have "tw ((fl @ [c]) @ take j cs) \<le> rw" using a by blast
        then show ?thesis using j by simp
      qed
    qed
    have 5: "Suc n < length (c # cs) \<longrightarrow> rw < tw (fl @ take (Suc (Suc n)) (c # cs))"
      using b by simp
    from 1 2 3 4 5 show ?thesis by blast
  qed
qed

lemma firstLineOf_shape:
  "\<exists>n \<le> length text.
     fst (firstLineOf lib fs rw text) = take n text
     \<and> snd (firstLineOf lib fs rw text) = (if n = 0 then 0 else getTextWidth lib fs (take n text))
     \<and> (\<forall>k. 0 < k \<and> k \<le> n \<longrightarrow> getTextWidth lib fs (take k text) \<le> rw)
     \<and> (n < length text \<longrightarrow> rw < getTextWidth lib fs (take (Suc n) text))"
  using firstLineLoop_shape [of "text" "getTextWidth lib fs" rw "[]" 0]
  unfolding firstLineOf_def append_Nil by blast

lemma firstLineOf_facts:
  "length (fst (firstLineOf lib fs rw text)) \<le> length text"
  "fst (firstLineOf lib fs rw text) = take (length (fst (firstLineOf lib fs rw text))) text"
  "snd (firstLineOf lib fs rw text) =
     (if fst (firstLineOf lib fs rw text) = [] then 0
      else getTextWidth lib fs (fst (firstLineOf lib fs rw text)))"
  "\<forall>k. 0 < k \<and> k \<le> length (fst (firstLineOf lib fs rw text))
         \<longrightarrow> getTextWidth lib fs (take k text) \<le> rw"
  "length (fst (firstLineOf lib fs rw text)) < length text
     \<longrightarrow> rw < getTextWidth lib fs (take (Suc (length (fst (firstLineOf lib fs rw text)))) text)"
proof -
  obtain n where n: "n \<le> length text"
    and f: "fst (firstLineOf lib fs rw text) = take n text"
    and w: "snd (firstLineOf lib fs rw text) = (if n = 0 then 0 else getTextWidth lib fs (take n text))"
    and a: "\<forall>k. 0 < k \<and> k \<le> n \<longrightarrow> getTextWidth lib fs (take k text) \<le> rw"
    and b: "n < length text \<longrightarrow> rw < getTextWidth lib fs (take (Suc n) text)"
    using firstLineOf_shape [of "text" lib fs rw] by blast
  have len: "length (fst (firstLineOf lib fs rw text)) = n" using n f by simp
  show "length (fst (firstLineOf lib fs rw text)) \<le> length text" using len n by simp
  show "fst (firstLineOf lib fs rw text) = take (length (fst (firstLineOf lib fs rw text))) text"
    using len f by simp
  show "snd (firstLineOf lib fs rw text) =
     (if fst (firstLineOf lib fs rw text) = [] then 0
      else getTextWidth lib fs (fst (firstLineOf lib fs rw text)))"
    using w f len by (cases "n = 0") auto
  show "\<forall>k. 0 < k \<and> k \<le> length (fst (firstLineOf lib fs rw text))
         \<longrightarrow> getTextWidth lib fs (take k text) \<le> rw"
    using a len by simp
  show "length (fst (firstLineOf lib fs rw text)) < length text
     \<longrightarrow> rw < getTextWidth lib fs (take (Suc (length (fst (firstLineOf lib fs rw text)))) text)"
    using b len by simp
qed

lemma firstLineOf_longest:
  assumes mono: "monotoneOn (getTextWidth lib fs) text"
      and zero: "getTextWidth lib fs [] = 0"
      and rw: "0 \<le> rw"
      and k: "k \<le> length text"
  shows "(getTextWidth lib fs (take k text) \<le> rw)
         = (k \<le> length (fst (firstLineOf lib fs rw text)))"
proof (cases "k \<le> length (fst (firstLineOf lib fs rw text))")
  case True
  show ?thesis
  proof (cases "k = 0")
    case True
    then show ?thesis using zero rw by simp
  next
    case False
    then show ?thesis using True firstLineOf_facts(4) [of lib fs rw "text"] by simp
  qed
next
  case False
  let ?n = "length (fst (firstLineOf lib fs rw text))"
  have lt: "?n < length text" using False k by simp
  then have over: "rw < getTextWidth lib fs (take (Suc ?n) text)"
    using firstLineOf_facts(5) [of lib fs rw "text"] by simp
  have "Suc ?n \<le> k" using False by simp
  then have "getTextWidth lib fs (take (Suc ?n) text) \<le> getTextWidth lib fs (take k text)"
    using mono k unfolding monotoneOn_def by blast
  then show ?thesis using over False by simp
qed

lemma config_addText_begin: "config (addText_begin options s) = config s"
  by (simp add: addText_begin_def Let_def pdf_do_def config_def)

lemma config_addText_first: "config (addText_first fs fl s) = config s"
  by (simp add: addText_first_def Let_def pdf_do_def config_def checkWriteY_snd)

lemma config_addText_rest: "config (addText_rest lib fs text fl s) = config s"
  by (simp add: addText_rest_def config_restLines)

lemma config_afterFirstLine: "config (afterFirstLine lib text options s) = config s"
  by (simp add: afterFirstLine_def config_addText_first config_addText_begin)

lemma addText_rendered_eq:
  "addText_rendered lib text options s =
     addText_rest lib (textFontSize options s) text (fst (firstFragment lib text options s))
       (afterFirstLine lib text options s)"
  by (simp add: addText_rendered_def afterFirstLine_def firstFragment_def Let_def)

lemma config_addText_rendered: "config (addText_rendered lib text options s) = config s"
  by (simp add: addText_rendered_eq config_addText_rest config_afterFirstLine)

lemma afterFirstLine_eq:
  "afterFirstLine lib text options s =
     (snd (checkWriteY (getLineHeight (textFontSize options s)) (addText_begin options s)))
       \<lparr>pdf := pdf (snd (checkWriteY (getLineHeight (textFontSize options s)) (addText_begin options s)))
               @ [PdfText (fst (firstFragment lib text options s))
                    (writeX (addText_begin options s))
                    (writeY (snd (checkWriteY (getLineHeight (textFontSize options s))
                                   (addText_begin options s)))
                     + textFontSize options s * 0.4)],
        writeX := writeX (addText_begin options s) + snd (firstFragment lib text options s)\<rparr>"
  by (simp add: afterFirstLine_def addText_first_def Let_def pdf_do_def getTextWriteY_def
      writeX_checkWriteY)

lemma pdf_addText_rest: "\<exists>more. pdf (addText_rest lib fs text fl s) = pdf s @ more"
  using pdf_restLines by (simp add: addText_rest_def)

lemma pdf_addText_end: "pdf (addText_end fs options s) = pdf s"
  by (simp add: addText_end_def Let_def)

lemma pdf_addText:
  "\<exists>more. pdf (snd (addText lib text options s)) = pdf (afterFirstLine lib text options s) @ more"
  using pdf_addText_rest by (simp add: addText_def pdf_addText_end addText_rendered_eq)

lemma fixedPitch_width: "getTextWidth fixedPitch fs t = \<bar>fs\<bar> * real (length t) / 8"
  by (simp add: fixedPitch_def)

lemma fixedPitch_monotone: "monotoneOn (getTextWidth fixedPitch fs) t"
  by (simp add: monotoneOn_def fixedPitch_width min_def divide_right_mono mult_left_mono)

lemmas run_defs =
  addText_def addArticle_def addText_rendered_def addText_begin_def addText_first_def
  addText_rest_def addText_end_def firstFragment_def afterFirstLine_def firstLineOf_def
  remainWidth_def textFontSize_def textArticle_def getLineHeight_def getTextWriteY_def
  addLine_def addImage_def imageHeight_def addSpace_def save_def breakLine_def
  checkWriteY_def pdf_do_def clientWidth_def orDefault_def Let_def
  noTextOptions_def noLineOptions_def noImageOptions_def blankA4_eq fixedPitch_width

lemma breakLine_cases:
  "(writeX s \<noteq> pagePaddingX s \<longrightarrow>
      breakLine s = s\<lparr>writeX := pagePaddingX s, writeY := writeY s + lastLineHeight s\<rparr>)
   \<and> (writeX s = pagePaddingX s \<longrightarrow> breakLine s = s)"
  by (simp add: breakLine_def)

lemma imageHeight_ignores:
  "imageHeight lib img (options\<lparr>i_format := f\<rparr>) s = imageHeight lib img options s"
  "imageHeight lib img (options\<lparr>i_top := t\<rparr>) s = imageHeight lib img options s"
  "imageHeight lib img (options\<lparr>i_bottom := b\<rparr>) s = imageHeight lib img options s"
  by (simp_all add: imageHeight_def split: height_spec.split)

lemma afterAb:
  "snd (addText fixedPitch ''ab'' noTextOptions blankA4) =
     blankA4\<lparr>pdf := pdf blankA4 @ [PdfSetFontSize 16, PdfSetTextColor [10, 10, 10],
                                     PdfText ''ab'' 10 (10 + 16 * 0.4)],
             writeX := 14, lastLineHeight := 8.8\<rparr>"
  by (simp add: run_defs)

lemma writeX_addText_begin:
  "pagePaddingX s \<le> writeX s \<Longrightarrow> pagePaddingX s \<le> writeX (addText_begin options s)"
  by (simp add: addText_begin_def Let_def pdf_do_def)

lemma firstLineOf_width_nonneg:
  "\<forall>fs t. 0 \<le> getTextWidth lib fs t \<Longrightarrow> 0 \<le> snd (firstLineOf lib fs rw text)"
  by (simp add: firstLineOf_facts(3))

lemma writeX_afterFirstLine:
  assumes "\<forall>fs t. 0 \<le> getTextWidth lib fs t" and "pagePaddingX s \<le> writeX s"
  shows "pagePaddingX s \<le> writeX (afterFirstLine lib text options s)"
proof -
  have "0 \<le> snd (firstFragment lib text options s)"
    using firstLineOf_width_nonneg [OF assms(1)] by (simp add: firstFragment_def)
  moreover have "pagePaddingX s \<le> writeX (addText_begin options s)"
    using writeX_addText_begin [OF assms(2)] .
  ultimately show ?thesis
    by (simp add: afterFirstLine_eq)
qed

lemma writeX_addText_rest:
  assumes "\<forall>fs t. 0 \<le> getTextWidth lib fs t" and "pagePaddingX s \<le> writeX s"
  shows "pagePaddingX s \<le> writeX (addText_rest lib fs text fl s)"
proof (cases "length fl \<noteq> length text
              \<and> splitTextToSize lib fs (drop (length fl) text) (clientWidth s) \<noteq> []")
  case True
  then show ?thesis
    using assms(1) by (simp add: addText_rest_def writeX_restLines)
next
  case False
  then show ?thesis
    using assms(2) by (auto simp: addText_rest_def)
qed

lemma writeX_addText_rendered:
  assumes "\<forall>fs t. 0 \<le> getTextWidth lib fs t" and "pagePaddingX s \<le> writeX s"
  shows "pagePaddingX s \<le> writeX (addText_rendered lib text options s)"
proof -
  have "pagePaddingX (afterFirstLine lib text options s) \<le> writeX (afterFirstLine lib text options s)"
    using writeX_afterFirstLine [OF assms] config_fields [OF config_afterFirstLine [of lib "text" options s]]
    by simp
  from writeX_addText_rest [OF assms(1) this]
  show ?thesis
    using config_fields [OF config_afterFirstLine [of lib "text" options s]]
    by (simp add: addText_rendered_eq)
qed

lemma config_addText_end: "config (addText_end fs options s) = config s"
  by (simp add: addText_end_def Let_def config_def)

lemma config_addText: "config (snd (addText lib text options s)) = config s"
  by (simp add: addText_def config_addText_end config_addText_rendered)

lemma writeX_addText_end:
  "writeX (addText_end fs options r) = pagePaddingX r
   \<or> (writeX (addText_end fs options r) = writeX r + orDefault 0 (o_right options)
       \<and> writeX (addText_end fs options r)
           \<le> clientWidth r + real (pageIndex (addText_end fs options r)))"
  by (simp add: addText_end_def Let_def clientWidth_def)

lemma writeX_addText:
  "writeX (snd (addText lib text options s)) = pagePaddingX s
   \<or> (writeX (snd (addText lib text options s))
         = writeX (addText_rendered lib text options s) + orDefault 0 (o_right options)
       \<and> writeX (snd (addText lib text options s))
           \<le> clientWidth s + real (pageIndex (snd (addText lib text options s))))"
  using writeX_addText_end [of "textFontSize options s" options "addText_rendered lib text options s"]
    config_fields [OF config_addText_rendered [of lib "text" options s]]
  by (simp add: addText_def)

lemma inBounds_margin: "writeX s = pagePaddingX s \<Longrightarrow> inBounds s"
  by (simp add: inBounds_def)

lemma inBounds_addText:
  assumes meas: "\<forall>fs t. 0 \<le> getTextWidth lib fs t"
      and right: "0 \<le> orDefault 0 (o_right options)"
      and inv: "inBounds s"
  shows "inBounds (snd (addText lib text options s))"
proof -
  have cf: "pagePaddingX (snd (addText lib text options s)) = pagePaddingX s"
           "pageWidth (snd (addText lib text options s)) = pageWidth s"
    using config_fields [OF config_addText [of lib "text" options s]] by simp_all
  have low: "pagePaddingX s \<le> writeX (addText_rendered lib text options s)"
    using writeX_addText_rendered [OF meas] inv by (simp add: inBounds_def)
  from writeX_addText [of lib "text" options s]
  show ?thesis
  proof
    assume "writeX (snd (addText lib text options s)) = pagePaddingX s"
    then show ?thesis by (simp add: inBounds_margin cf)
  next
    assume a: "writeX (snd (addText lib text options s))
         = writeX (addText_rendered lib text options s) + orDefault 0 (o_right options)
       \<and> writeX (snd (addText lib text options s))
           \<le> clientWidth s + real (pageIndex (snd (addText lib text options s)))"
    then show ?thesis
      using low right by (simp add: inBounds_def cf clientWidth_def)
  qed
qed

lemma config_perform: "config (snd (perform lib c s)) = config s"
proof (cases c)
  case (AddText t options)
  then show ?thesis by (simp add: config_addText)
next
  case (AddArticle t options)
  then show ?thesis by (simp add: addArticle_def config_addText)
next
  case (AddLine options)
  then show ?thesis
    using config_breakLine [of s]
    by (simp add: addLine_def Let_def pdf_do_def config_def checkWriteY_snd)
next
  case (AddImage img options)
  then show ?thesis
    using config_breakLine [of s]
    by (simp add: addImage_def Let_def pdf_do_def config_def checkWriteY_snd)
next
  case (AddSpace h)
  then show ?thesis
    using config_breakLine [of s]
    by (simp add: addSpace_def Let_def pdf_do_def config_def checkWriteY_snd)
next
  case (SaveAs f)
  then show ?thesis by (simp add: save_def pdf_do_def config_def)
qed

lemma inBounds_perform:
  assumes meas: "\<forall>fs t. 0 \<le> getTextWidth lib fs t"
      and right: "rightMarginOk c"
      and inv: "inBounds s"
  shows "inBounds (snd (perform lib c s))"
proof (cases c)
  case (AddText t options)
  then show ?thesis using inBounds_addText [OF meas _ inv] right by simp
next
  case (AddArticle t options)
  then show ?thesis
    using inBounds_addText [OF meas _ inv, of "options\<lparr>o_article := Some True\<rparr>"] right
    by (simp add: addArticle_def)
next
  case (AddLine options)
  have "writeX (snd (addLine options s)) = pagePaddingX s"
    by (simp add: addLine_def Let_def pdf_do_def writeX_checkWriteY writeX_breakLine)
  then have "writeX (snd (addLine options s)) = pagePaddingX (snd (addLine options s))"
    using config_fields [OF config_perform [of lib "AddLine options" s]] by simp
  then show ?thesis using AddLine by (simp add: inBounds_margin)
next
  case (AddImage img options)
  have "writeX (snd (addImage lib img options s)) = pagePaddingX (snd (addImage lib img options s))"
    by (simp add: addImage_def Let_def pdf_do_def)
  then show ?thesis using AddImage by (simp add: inBounds_margin)
next
  case (AddSpace h)
  have "writeX (snd (addSpace h s)) = pagePaddingX (snd (addSpace h s))"
    by (simp add: addSpace_def Let_def)
  then show ?thesis using AddSpace by (simp add: inBounds_margin)
next
  case (SaveAs f)
  then show ?thesis using inv by (simp add: save_def pdf_do_def inBounds_def)
qed

lemma inBounds_statements:
  assumes meas: "\<forall>fs t. 0 \<le> getTextWidth lib fs t"
  shows "\<forall>c \<in> set cs. rightMarginOk c \<Longrightarrow> inBounds s \<Longrightarrow> inBounds (statements lib cs s)"
proof (induction cs arbitrary: s)
  case Nil
  then show ?case by simp
next
  case (Cons c cs)
  have "inBounds (snd (perform lib c s))"
    using inBounds_perform [OF meas _ Cons.prems(2), of c] Cons.prems(1) by simp
  then show ?case using Cons.IH Cons.prems(1) by simp
qed

lemma config_statements: "config (statements lib cs s) = config s"
  by (induction cs arbitrary: s) (simp_all add: config_perform)

lemma inBounds_constructor: "inBounds (constructor lib copts)"
  by (simp add: inBounds_margin constructor_def Let_def)

lemma checkWriteY_fits:
  "0 \<le> h \<Longrightarrow> 2 * pagePaddingY s \<le> pageHeight s \<Longrightarrow>
   writeY (snd (checkWriteY h s)) \<le> pageHeight s - pagePaddingY s"
  by (simp add: checkWriteY_snd)

lemma fixedPitch_nonneg: "\<forall>fs t. 0 \<le> getTextWidth fixedPitch fs t"
  by (simp add: fixedPitch_width)

lemma demoRun:
  "statements fixedPitch
     [AddSpace (Some 300), AddLine noLineOptions,
      AddText ''ab'' (noTextOptions\<lparr>o_right := Some 3\<rparr>)] blankA4
   = blankA4\<lparr>pdf := pdf blankA4 @
        [PdfAddPage, PdfSetPage 2, PdfAddPage, PdfSetPage 3,
         PdfSetLineWidth 0.5, PdfSetDrawColor [10, 10, 10], PdfLine 10 14 200 14,
         PdfSetFontSize 16, PdfSetTextColor [10, 10, 10], PdfText ''ab'' 10 (18.5 + 16 * 0.4)],
       pageIndex := 3, writeY := 18.5, writeX := 17, lastLineHeight := 8.8\<rparr>"
  by (simp add: run_defs)

lemma elevenPages:
  "statements fixedPitch
     [AddSpace (Some 300), AddSpace (Some 300), AddSpace (Some 300), AddSpace (Some 300),
      AddSpace (Some 300), AddSpace (Some 300), AddSpace (Some 300), AddSpace (Some 300),
      AddSpace (Some 300), AddSpace (Some 300),
      AddText [] (noTextOptions\<lparr>o_right := Some 191\<rparr>)] blankA4
   = blankA4\<lparr>pdf := pdf blankA4 @
        [PdfAddPage, PdfSetPage 2, PdfAddPage, PdfSetPage 3, PdfAddPage, PdfSetPage 4,
         PdfAddPage, PdfSetPage 5, PdfAddPage, PdfSetPage 6, PdfAddPage, PdfSetPage 7,
         PdfAddPage, PdfSetPage 8, PdfAddPage, PdfSetPage 9, PdfAddPage, PdfSetPage 10,
         PdfAddPage, PdfSetPage 11,
         PdfSetFontSize 16, PdfSetTextColor [10, 10, 10],
         PdfAddPage, PdfSetPage 12, PdfText [] 10 (10 + 16 * 0.4)],
       pageIndex := 12, writeY := 10, writeX := 201, lastLineHeight := 8.8\<rparr>"
  by (simp add: run_defs)

lemma afterSpace270:
  "snd (addSpace (Some 270) blankA4) = blankA4\<lparr>writeY := 280\<rparr>"
  by (simp add: run_defs)

subsection \<open>The pagination guard\<close>

text \<open>
  C1 (as amended). \<open>checkWriteY h\<close> paginates exactly when
  \<open>writeY + h > pageHeight - pagePaddingY\<close>: it then appends a page to the document,
  selects it, increments \<open>pageIndex\<close> by one and resets \<open>writeY\<close> to \<open>pagePaddingY\<close>,
  and changes nothing else (in particular not \<open>writeX\<close>); otherwise the state is
  unchanged. The guard of \<open>src/index.js\<close> returns \<open>undefined\<close> in both cases. The guard
  of the intermediate revision makes the same state change and returns \<open>false\<close> when it
  paginated and \<open>true\<close> when it did not.
\<close>

theorem C1_checkWriteY:
  "(writeY s + h > pageHeight s - pagePaddingY s \<longrightarrow>
      snd (checkWriteY h s) =
        s\<lparr>pdf := pdf s @ [PdfAddPage, PdfSetPage (pageIndex s + 1)],
          pageIndex := pageIndex s + 1, writeY := pagePaddingY s\<rparr>
      \<and> writeX (snd (checkWriteY h s)) = writeX s)
   \<and> (\<not> writeY s + h > pageHeight s - pagePaddingY s \<longrightarrow> snd (checkWriteY h s) = s)
   \<and> fst (checkWriteY h s) = ReturnsUndefined
   \<and> snd (checkWriteY_v2 h s) = snd (checkWriteY h s)
   \<and> fst (checkWriteY_v2 h s) = ReturnsBool (\<not> writeY s + h > pageHeight s - pagePaddingY s)"
  by (simp add: checkWriteY_def checkWriteY_v2_def pdf_do_def Let_def)

theorem C1_checkWriteY_witness:
  "writeY blankA4 + 300 > pageHeight blankA4 - pagePaddingY blankA4
   \<and> pageIndex (snd (checkWriteY 300 blankA4)) = 2
   \<and> writeY (snd (checkWriteY 300 blankA4)) = 10
   \<and> writeX (snd (checkWriteY 300 blankA4)) = 10
   \<and> \<not> writeY blankA4 + 5 > pageHeight blankA4 - pagePaddingY blankA4
   \<and> snd (checkWriteY 5 blankA4) = blankA4"
  using C1_checkWriteY [of blankA4 300] C1_checkWriteY [of blankA4 5]
  by (simp add: blankA4_eq)

text \<open>
  The claim as written also says that the return value reports whether pagination
  occurred. On a fresh A4 document a height of 300 mm paginates, and the guard returns
  \<open>undefined\<close> (\<open>false\<close> in the intermediate revision), not \<open>true\<close>.
\<close>

theorem C1_return_counterexample:
  "writeY blankA4 + 300 > pageHeight blankA4 - pagePaddingY blankA4
   \<and> pageIndex (snd (checkWriteY 300 blankA4)) = pageIndex blankA4 + 1
   \<and> fst (checkWriteY 300 blankA4) \<noteq> ReturnsBool True
   \<and> fst (checkWriteY 300 blankA4) = fst (checkWriteY 5 blankA4)
   \<and> fst (checkWriteY_v2 300 blankA4) \<noteq> ReturnsBool True"
  by (simp add: checkWriteY_def checkWriteY_v2_def pdf_do_def Let_def blankA4_eq)

subsection \<open>The first line of a text\<close>

text \<open>
  C2 (as amended). \<open>addText\<close> computes
  \<open>remainWidth = clientWidth - writeX - left - pagePaddingX\<close> (with \<open>writeX\<close> taken after
  the paragraph break of article mode) and probes the text character by character. The
  first-line fragment is a prefix of the text; each of its non-empty prefixes measures at
  most \<open>remainWidth\<close>; and if it is not the whole text, the prefix one character longer
  measures more than \<open>remainWidth\<close>. The width recorded for it is its measured width,
  and 0 when it is empty. When the measurer never shrinks along the prefixes of the text,
  gives the empty string width 0, and \<open>remainWidth\<close> is not negative, the fragment is the
  longest prefix whose measured width is at most \<open>remainWidth\<close>. For the empty text the
  fragment is empty. In every case \<open>addText\<close> then paginates for one line height, draws
  the fragment at \<open>(writeX, writeY + fontSize * 0.4)\<close> and moves \<open>writeX\<close> right by the
  recorded width; these calls are a prefix of all the calls \<open>addText\<close> makes.
\<close>

theorem C2_addText_first_line:
  "remainWidth options (addText_begin options s) =
     clientWidth s - writeX (addText_begin options s) - orDefault 0 (o_left options)
       - pagePaddingX s
   \<and> fst (firstFragment lib text options s) =
       take (length (fst (firstFragment lib text options s))) text
   \<and> (\<forall>k. 0 < k \<and> k \<le> length (fst (firstFragment lib text options s)) \<longrightarrow>
          getTextWidth lib (textFontSize options s) (take k text)
            \<le> remainWidth options (addText_begin options s))
   \<and> (length (fst (firstFragment lib text options s)) < length text \<longrightarrow>
          remainWidth options (addText_begin options s)
            < getTextWidth lib (textFontSize options s)
                (take (Suc (length (fst (firstFragment lib text options s)))) text))
   \<and> snd (firstFragment lib text options s) =
       (if fst (firstFragment lib text options s) = [] then 0
        else getTextWidth lib (textFontSize options s) (fst (firstFragment lib text options s)))
   \<and> (monotoneOn (getTextWidth lib (textFontSize options s)) text
        \<and> getTextWidth lib (textFontSize options s) [] = 0
        \<and> 0 \<le> remainWidth options (addText_begin options s) \<longrightarrow>
        (\<forall>k \<le> length text.
           (getTextWidth lib (textFontSize options s) (take k text)
              \<le> remainWidth options (addText_begin options s))
           = (k \<le> length (fst (firstFragment lib text options s)))))
   \<and> (text = [] \<longrightarrow> firstFragment lib text options s = ([], 0))
   \<and> afterFirstLine lib text options s =
       (snd (checkWriteY (getLineHeight (textFontSize options s)) (addText_begin options s)))
         \<lparr>pdf := pdf (snd (checkWriteY (getLineHeight (textFontSize options s))
                             (addText_begin options s)))
                 @ [PdfText (fst (firstFragment lib text options s))
                      (writeX (addText_begin options s))
                      (writeY (snd (checkWriteY (getLineHeight (textFontSize options s))
                                     (addText_begin options s)))
                       + textFontSize options s * 0.4)],
          writeX := writeX (addText_begin options s) + snd (firstFragment lib text options s)\<rparr>
   \<and> addText_rendered lib text options s =
       addText_rest lib (textFontSize options s) text (fst (firstFragment lib text options s))
         (afterFirstLine lib text options s)
   \<and> (\<exists>more. pdf (snd (addText lib text options s))
                = pdf (afterFirstLine lib text options s) @ more)"
proof -
  have rw: "remainWidth options (addText_begin options s) =
     clientWidth s - writeX (addText_begin options s) - orDefault 0 (o_left options)
       - pagePaddingX s"
    using config_fields [OF config_addText_begin [of options s]]
    by (simp add: remainWidth_def)
  have longest: "monotoneOn (getTextWidth lib (textFontSize options s)) text
        \<and> getTextWidth lib (textFontSize options s) [] = 0
        \<and> 0 \<le> remainWidth options (addText_begin options s) \<longrightarrow>
        (\<forall>k \<le> length text.
           (getTextWidth lib (textFontSize options s) (take k text)
              \<le> remainWidth options (addText_begin options s))
           = (k \<le> length (fst (firstFragment lib text options s))))"
    using firstLineOf_longest
      [of lib "textFontSize options s" "text" "remainWidth options (addText_begin options s)"]
    by (simp add: firstFragment_def)
  have empty: "text = [] \<longrightarrow> firstFragment lib text options s = ([], 0)"
    by (simp add: firstFragment_def firstLineOf_def)
  show ?thesis
    unfolding firstFragment_def [symmetric]
    using rw longest empty
      firstLineOf_facts [of lib "textFontSize options s"
         "remainWidth options (addText_begin options s)" "text", folded firstFragment_def]
      afterFirstLine_eq [of lib "text" options s]
      addText_rendered_eq [of lib "text" options s]
      pdf_addText [of lib "text" options s]
    by blast
qed

theorem C2_addText_first_line_witness:
  "monotoneOn (getTextWidth fixedPitch (textFontSize noTextOptions blankA4)) ''ab''
   \<and> getTextWidth fixedPitch (textFontSize noTextOptions blankA4) [] = 0
   \<and> 0 \<le> remainWidth noTextOptions (addText_begin noTextOptions blankA4)
   \<and> (1::nat) \<le> length ''ab''
   \<and> ((getTextWidth fixedPitch 16 (take 1 ''ab'') \<le> 170)
        = (1 \<le> length (fst (firstFragment fixedPitch ''ab'' noTextOptions blankA4))))
   \<and> fst (firstFragment fixedPitch ''ab'' noTextOptions blankA4) = ''ab''
   \<and> writeX (afterFirstLine fixedPitch ''ab'' noTextOptions blankA4) = 14
   \<and> fst (firstFragment fixedPitch ''abcdefg'' (noTextOptions\<lparr>o_fontSize := Some 400\<rparr>) blankA4)
       = ''abc''
   \<and> length ''abc'' < length ''abcdefg''
   \<and> 170 < getTextWidth fixedPitch 400 (take (Suc (length ''abc'')) ''abcdefg'')
   \<and> (0::nat) < 2 \<and> 2 \<le> length ''abc''
   \<and> getTextWidth fixedPitch 400 (take 2 ''abcdefg'') \<le> 170
   \<and> firstFragment fixedPitch [] noTextOptions blankA4 = ([], 0)"
proof -
  have size: "textFontSize noTextOptions blankA4 = 16"
    by (simp add: run_defs)
  have size': "textFontSize (noTextOptions\<lparr>o_fontSize := Some 400\<rparr>) blankA4 = 400"
    by (simp add: run_defs)
  have room: "remainWidth noTextOptions (addText_begin noTextOptions blankA4) = 170"
    by (simp add: run_defs)
  have room': "remainWidth (noTextOptions\<lparr>o_fontSize := Some 400\<rparr>)
                 (addText_begin (noTextOptions\<lparr>o_fontSize := Some 400\<rparr>) blankA4) = 170"
    by (simp add: run_defs)
  have frag: "firstFragment fixedPitch ''ab'' noTextOptions blankA4 = (''ab'', 4)"
    by (simp add: run_defs)
  have frag': "firstFragment fixedPitch ''abcdefg'' (noTextOptions\<lparr>o_fontSize := Some 400\<rparr>) blankA4
                = (''abc'', 150)"
    by (simp add: run_defs)
  have hyp: "monotoneOn (getTextWidth fixedPitch 16) ''ab''
             \<and> getTextWidth fixedPitch 16 [] = 0 \<and> (0::real) \<le> 170"
    by (simp add: fixedPitch_monotone fixedPitch_width)
  note a = C2_addText_first_line [of noTextOptions blankA4 fixedPitch "''ab''"]
  note b = C2_addText_first_line
             [of "noTextOptions\<lparr>o_fontSize := Some 400\<rparr>" blankA4 fixedPitch "''abcdefg''"]
  note c = C2_addText_first_line [of noTextOptions blankA4 fixedPitch "[]"]
  have "\<forall>k \<le> length ''ab''.
         (getTextWidth fixedPitch 16 (take k ''ab'') \<le> 170)
         = (k \<le> length (fst (firstFragment fixedPitch ''ab'' noTextOptions blankA4)))"
    using a hyp unfolding size room by blast
  then have "1 \<le> length ''ab'' \<longrightarrow>
         (getTextWidth fixedPitch 16 (take 1 ''ab'') \<le> 170)
         = (1 \<le> length (fst (firstFragment fixedPitch ''ab'' noTextOptions blankA4)))"
    by (rule spec)
  then have 1: "(getTextWidth fixedPitch 16 (take 1 ''ab'') \<le> 170)
         = (1 \<le> length (fst (firstFragment fixedPitch ''ab'' noTextOptions blankA4)))"
    by simp
  have 2: "writeX (afterFirstLine fixedPitch ''ab'' noTextOptions blankA4) = 14"
    using a unfolding frag by (simp add: run_defs)
  have 3: "170 < getTextWidth fixedPitch 400 (take (Suc (length ''abc'')) ''abcdefg'')"
    using b unfolding size' room' frag' by simp
  have 4: "getTextWidth fixedPitch 400 (take 2 ''abcdefg'') \<le> 170"
  proof -
    have "\<forall>k. 0 < k \<and> k \<le> length ''abc'' \<longrightarrow>
            getTextWidth fixedPitch 400 (take k ''abcdefg'') \<le> 170"
      using b unfolding size' room' frag' by simp
    then have "0 < (2::nat) \<and> 2 \<le> length ''abc'' \<longrightarrow>
            getTextWidth fixedPitch 400 (take 2 ''abcdefg'') \<le> 170"
      by (rule spec)
    then show ?thesis by simp
  qed
  have 5: "firstFragment fixedPitch [] noTextOptions blankA4 = ([], 0)"
    using c by blast
  show ?thesis
    using 1 2 3 4 5 hyp frag frag' size room by simp
qed

text \<open>
  The claim as written calls the fragment the longest prefix whose measured width is at
  most \<open>remainWidth\<close>. With a left margin of 175 mm on a fresh A4 document
  \<open>remainWidth\<close> is \<open>-5\<close>: the fragment of \<open>addText('a', {left: 175})\<close> is empty, and
  its measured width, 0, is not at most \<open>-5\<close>.
\<close>

theorem C2_negative_room_counterexample:
  "remainWidth (noTextOptions\<lparr>o_left := Some 175\<rparr>)
     (addText_begin (noTextOptions\<lparr>o_left := Some 175\<rparr>) blankA4) = - 5
   \<and> fst (firstFragment fixedPitch ''a'' (noTextOptions\<lparr>o_left := Some 175\<rparr>) blankA4) = []
   \<and> \<not> getTextWidth fixedPitch 16
          (fst (firstFragment fixedPitch ''a'' (noTextOptions\<lparr>o_left := Some 175\<rparr>) blankA4))
        \<le> remainWidth (noTextOptions\<lparr>o_left := Some 175\<rparr>)
            (addText_begin (noTextOptions\<lparr>o_left := Some 175\<rparr>) blankA4)"
  by (simp add: firstFragment_def firstLineOf_def remainWidth_def addText_begin_def
      textFontSize_def textArticle_def noTextOptions_def orDefault_def pdf_do_def clientWidth_def
      blankA4_eq fixedPitch_width Let_def)

subsection \<open>The end of a text call\<close>

text \<open>
  C3. In inline mode (\<open>article\<close> false or left out), once the text is drawn \<open>addText\<close>
  adds \<open>options.right\<close> to \<open>writeX\<close>; it wraps (\<open>writeX\<close> back to \<open>pagePaddingX\<close>,
  \<open>writeY\<close> down by one line height) if and only if that sum exceeds
  \<open>clientWidth + pageIndex\<close>, with \<open>pageIndex\<close> the page the text ended on; otherwise the
  cursor stays at the sum, on the same line. Neither case draws or paginates.
\<close>

theorem C3_addText_inline_wrap:
  "textArticle options = False \<Longrightarrow>
   (writeX (addText_rendered lib text options s) + orDefault 0 (o_right options)
      > clientWidth s + real (pageIndex (addText_rendered lib text options s)) \<longrightarrow>
      writeX (snd (addText lib text options s)) = pagePaddingX s
      \<and> writeY (snd (addText lib text options s))
          = writeY (addText_rendered lib text options s)
            + getLineHeight (textFontSize options s))
   \<and> (\<not> writeX (addText_rendered lib text options s) + orDefault 0 (o_right options)
        > clientWidth s + real (pageIndex (addText_rendered lib text options s)) \<longrightarrow>
      writeX (snd (addText lib text options s))
        = writeX (addText_rendered lib text options s) + orDefault 0 (o_right options)
      \<and> writeY (snd (addText lib text options s))
          = writeY (addText_rendered lib text options s))
   \<and> pageIndex (snd (addText lib text options s))
       = pageIndex (addText_rendered lib text options s)
   \<and> pdf (snd (addText lib text options s)) = pdf (addText_rendered lib text options s)"
  using config_fields [OF config_addText_rendered [of lib "text" options s]]
  by (simp add: addText_def addText_end_def Let_def clientWidth_def)

theorem C3_addText_inline_wrap_witness:
  "textArticle (noTextOptions\<lparr>o_right := Some 185\<rparr>) = False
   \<and> writeX (addText_rendered fixedPitch ''ab'' (noTextOptions\<lparr>o_right := Some 185\<rparr>) blankA4)
       + orDefault 0 (o_right (noTextOptions\<lparr>o_right := Some 185\<rparr>))
       > clientWidth blankA4
         + real (pageIndex (addText_rendered fixedPitch ''ab''
                              (noTextOptions\<lparr>o_right := Some 185\<rparr>) blankA4))
   \<and> writeX (snd (addText fixedPitch ''ab'' (noTextOptions\<lparr>o_right := Some 185\<rparr>) blankA4)) = 10
   \<and> writeY (snd (addText fixedPitch ''ab'' (noTextOptions\<lparr>o_right := Some 185\<rparr>) blankA4))
       = 10 + 8.8
   \<and> textArticle (noTextOptions\<lparr>o_right := Some 177\<rparr>) = False
   \<and> \<not> writeX (addText_rendered fixedPitch ''ab'' (noTextOptions\<lparr>o_right := Some 177\<rparr>) blankA4)
         + orDefault 0 (o_right (noTextOptions\<lparr>o_right := Some 177\<rparr>))
         > clientWidth blankA4
           + real (pageIndex (addText_rendered fixedPitch ''ab''
                                (noTextOptions\<lparr>o_right := Some 177\<rparr>) blankA4))
   \<and> writeX (snd (addText fixedPitch ''ab'' (noTextOptions\<lparr>o_right := Some 177\<rparr>) blankA4)) = 191
   \<and> writeY (snd (addText fixedPitch ''ab'' (noTextOptions\<lparr>o_right := Some 177\<rparr>) blankA4)) = 10"
proof -
  have r1: "addText_rendered fixedPitch ''ab'' (noTextOptions\<lparr>o_right := Some 185\<rparr>) blankA4
            = blankA4\<lparr>pdf := pdf blankA4 @ [PdfSetFontSize 16, PdfSetTextColor [10, 10, 10],
                                               PdfText ''ab'' 10 (10 + 16 * 0.4)],
                       writeX := 14\<rparr>"
    by (simp add: run_defs)
  have r2: "addText_rendered fixedPitch ''ab'' (noTextOptions\<lparr>o_right := Some 177\<rparr>) blankA4
            = blankA4\<lparr>pdf := pdf blankA4 @ [PdfSetFontSize 16, PdfSetTextColor [10, 10, 10],
                                               PdfText ''ab'' 10 (10 + 16 * 0.4)],
                       writeX := 14\<rparr>"
    by (simp add: run_defs)
  have a1: "textArticle (noTextOptions\<lparr>o_right := Some 185\<rparr>) = False"
    by (simp add: run_defs)
  have a2: "textArticle (noTextOptions\<lparr>o_right := Some 177\<rparr>) = False"
    by (simp add: run_defs)
  have fs1: "textFontSize (noTextOptions\<lparr>o_right := Some 185\<rparr>) blankA4 = 16"
    by (simp add: run_defs)
  have fs2: "textFontSize (noTextOptions\<lparr>o_right := Some 177\<rparr>) blankA4 = 16"
    by (simp add: run_defs)
  have th1: "pagePaddingX blankA4 = 10" "clientWidth blankA4 = 190" "pageIndex blankA4 = 1"
    "writeY blankA4 = 10"
    by (simp_all add: blankA4_eq clientWidth_def)
  have w1: "writeX (snd (addText fixedPitch ''ab'' (noTextOptions\<lparr>o_right := Some 185\<rparr>) blankA4)) = 10
     \<and> writeY (snd (addText fixedPitch ''ab'' (noTextOptions\<lparr>o_right := Some 185\<rparr>) blankA4))
         = 10 + 8.8"
    using C3_addText_inline_wrap [OF a1, of blankA4 fixedPitch "''ab''"]
    unfolding r1 fs1
    by (simp add: th1 orDefault_def getLineHeight_def)
  have w2: "writeX (snd (addText fixedPitch ''ab'' (noTextOptions\<lparr>o_right := Some 177\<rparr>) blankA4)) = 191
     \<and> writeY (snd (addText fixedPitch ''ab'' (noTextOptions\<lparr>o_right := Some 177\<rparr>) blankA4)) = 10"
    using C3_addText_inline_wrap [OF a2, of blankA4 fixedPitch "''ab''"]
    unfolding r2 fs2
    by (simp add: th1 orDefault_def getLineHeight_def)
  show ?thesis
    using w1 w2 a1 a2 unfolding r1 r2
    by (simp add: th1 orDefault_def)
qed

text \<open>
  C4. \<open>addArticle(text, options)\<close> leaves \<open>writeX\<close> at the left margin, for every text,
  every options object and every state it is called in.
\<close>

theorem C4_addArticle_left_margin:
  "writeX (snd (addArticle lib text options s)) = pagePaddingX s"
  using config_fields
    [OF config_addText_rendered [of lib "text" "options\<lparr>o_article := Some True\<rparr>" s]]
  by (simp add: addArticle_def addText_def addText_end_def textArticle_def orDefault_def Let_def)

subsection \<open>Rule and space\<close>

text \<open>
  C6. \<open>addLine\<close> first breaks the line if \<open>writeX\<close> is not at the left margin
  (\<open>writeX\<close> to \<open>pagePaddingX\<close>, \<open>writeY\<close> down by \<open>lastLineHeight\<close>). With \<open>top\<close>,
  \<open>bottom\<close>, \<open>lineWidth\<close> and \<open>color\<close> the caller's values where given and 4, 4, 0.5 and
  the document colour where left out, it then paginates for \<open>top + lineWidth\<close>: if
  \<open>writeY + top + lineWidth\<close> exceeds \<open>pageHeight - pagePaddingY\<close> it adds a page,
  selects it, increments \<open>pageIndex\<close> and restarts \<open>writeY\<close> at \<open>pagePaddingY\<close>. It sets
  the stroke width and colour, draws a line from \<open>pagePaddingX\<close> to
  \<open>pageWidth - pagePaddingX\<close> at height \<open>writeY + top\<close>, moves \<open>writeY\<close> down by
  \<open>top + lineWidth + bottom\<close> and changes nothing else; \<open>writeX\<close> ends at the left
  margin, and the instance is returned.
\<close>

theorem C6_addLine:
  "(writeX s \<noteq> pagePaddingX s \<longrightarrow>
      breakLine s = s\<lparr>writeX := pagePaddingX s, writeY := writeY s + lastLineHeight s\<rparr>)
   \<and> (writeX s = pagePaddingX s \<longrightarrow> breakLine s = s)
   \<and> (let top = (case l_top options of None \<Rightarrow> 4 | Some v \<Rightarrow> v);
            bottom = (case l_bottom options of None \<Rightarrow> 4 | Some v \<Rightarrow> v);
            lineWidth = (case l_lineWidth options of None \<Rightarrow> 0.5 | Some v \<Rightarrow> v);
            col = (case l_color options of None \<Rightarrow> color s | Some v \<Rightarrow> v)
        in (writeY (breakLine s) + (top + lineWidth) > pageHeight s - pagePaddingY s \<longrightarrow>
              snd (addLine options s) =
                (breakLine s)
                  \<lparr>pdf := pdf s @ [PdfAddPage, PdfSetPage (pageIndex s + 1),
                                   PdfSetLineWidth lineWidth, PdfSetDrawColor col,
                                   PdfLine (pagePaddingX s) (pagePaddingY s + top)
                                           (pageWidth s - pagePaddingX s) (pagePaddingY s + top)],
                    pageIndex := pageIndex s + 1,
                    writeY := pagePaddingY s + (top + lineWidth + bottom)\<rparr>)
         \<and> (\<not> writeY (breakLine s) + (top + lineWidth) > pageHeight s - pagePaddingY s \<longrightarrow>
              snd (addLine options s) =
                (breakLine s)
                  \<lparr>pdf := pdf s @ [PdfSetLineWidth lineWidth, PdfSetDrawColor col,
                                   PdfLine (pagePaddingX s) (writeY (breakLine s) + top)
                                           (pageWidth s - pagePaddingX s)
                                           (writeY (breakLine s) + top)],
                    writeY := writeY (breakLine s) + (top + lineWidth + bottom)\<rparr>))
   \<and> writeX (snd (addLine options s)) = pagePaddingX s
   \<and> fst (addLine options s) = ReturnsThis"
proof -
  have x: "writeX (snd (addLine options s)) = pagePaddingX s"
    by (simp add: addLine_def Let_def pdf_do_def writeX_checkWriteY writeX_breakLine)
  have r: "fst (addLine options s) = ReturnsThis"
    by (simp add: addLine_def Let_def)
  have b: "pdf (breakLine s) = pdf s" "pageIndex (breakLine s) = pageIndex s"
    "pageHeight (breakLine s) = pageHeight s" "pagePaddingY (breakLine s) = pagePaddingY s"
    "pagePaddingX (breakLine s) = pagePaddingX s" "pageWidth (breakLine s) = pageWidth s"
    "color (breakLine s) = color s"
    by (simp_all add: breakLine_def)
  have m: "let top = (case l_top options of None \<Rightarrow> 4 | Some v \<Rightarrow> v);
            bottom = (case l_bottom options of None \<Rightarrow> 4 | Some v \<Rightarrow> v);
            lineWidth = (case l_lineWidth options of None \<Rightarrow> 0.5 | Some v \<Rightarrow> v);
            col = (case l_color options of None \<Rightarrow> color s | Some v \<Rightarrow> v)
        in (writeY (breakLine s) + (top + lineWidth) > pageHeight s - pagePaddingY s \<longrightarrow>
              snd (addLine options s) =
                (breakLine s)
                  \<lparr>pdf := pdf s @ [PdfAddPage, PdfSetPage (pageIndex s + 1),
                                   PdfSetLineWidth lineWidth, PdfSetDrawColor col,
                                   PdfLine (pagePaddingX s) (pagePaddingY s + top)
                                           (pageWidth s - pagePaddingX s) (pagePaddingY s + top)],
                    pageIndex := pageIndex s + 1,
                    writeY := pagePaddingY s + (top + lineWidth + bottom)\<rparr>)
         \<and> (\<not> writeY (breakLine s) + (top + lineWidth) > pageHeight s - pagePaddingY s \<longrightarrow>
              snd (addLine options s) =
                (breakLine s)
                  \<lparr>pdf := pdf s @ [PdfSetLineWidth lineWidth, PdfSetDrawColor col,
                                   PdfLine (pagePaddingX s) (writeY (breakLine s) + top)
                                           (pageWidth s - pagePaddingX s)
                                           (writeY (breakLine s) + top)],
                    writeY := writeY (breakLine s) + (top + lineWidth + bottom)\<rparr>)"
    unfolding Let_def addLine_def orDefault_def
    by (simp add: pdf_do_def checkWriteY_snd b)
  show ?thesis
    using x r m breakLine_cases [of s] by blast
qed

theorem C6_addLine_witness:
  "writeX (snd (addText fixedPitch ''ab'' noTextOptions blankA4))
     \<noteq> pagePaddingX (snd (addText fixedPitch ''ab'' noTextOptions blankA4))
   \<and> breakLine (snd (addText fixedPitch ''ab'' noTextOptions blankA4)) =
       (snd (addText fixedPitch ''ab'' noTextOptions blankA4))\<lparr>writeX := 10, writeY := 18.8\<rparr>
   \<and> \<not> writeY (breakLine (snd (addText fixedPitch ''ab'' noTextOptions blankA4))) + (6 + 1.5)
         > pageHeight (snd (addText fixedPitch ''ab'' noTextOptions blankA4))
           - pagePaddingY (snd (addText fixedPitch ''ab'' noTextOptions blankA4))
   \<and> snd (addLine thickRule (snd (addText fixedPitch ''ab'' noTextOptions blankA4))) =
       (snd (addText fixedPitch ''ab'' noTextOptions blankA4))
         \<lparr>pdf := pdf (snd (addText fixedPitch ''ab'' noTextOptions blankA4))
                 @ [PdfSetLineWidth 1.5, PdfSetDrawColor [255, 0, 0],
                    PdfLine 10 24.8 200 24.8],
           writeX := 10, writeY := 28.3\<rparr>
   \<and> writeX (snd (addSpace (Some 270) blankA4)) = pagePaddingX (snd (addSpace (Some 270) blankA4))
   \<and> breakLine (snd (addSpace (Some 270) blankA4)) = snd (addSpace (Some 270) blankA4)
   \<and> writeY (breakLine (snd (addSpace (Some 270) blankA4))) + (6 + 1.5)
        > pageHeight (snd (addSpace (Some 270) blankA4))
          - pagePaddingY (snd (addSpace (Some 270) blankA4))
   \<and> snd (addLine thickRule (snd (addSpace (Some 270) blankA4))) =
       (snd (addSpace (Some 270) blankA4))
         \<lparr>pdf := pdf (snd (addSpace (Some 270) blankA4))
                 @ [PdfAddPage, PdfSetPage 2, PdfSetLineWidth 1.5, PdfSetDrawColor [255, 0, 0],
                    PdfLine 10 16 200 16],
           pageIndex := 2, writeY := 19.5\<rparr>
   \<and> writeY (snd (addLine noLineOptions blankA4)) = 10 + (4 + 0.5 + 4)
   \<and> pdf (snd (addLine noLineOptions blankA4)) =
       pdf blankA4 @ [PdfSetLineWidth 0.5, PdfSetDrawColor [10, 10, 10], PdfLine 10 14 200 14]"
proof -
  note a = C6_addLine [of "snd (addText fixedPitch ''ab'' noTextOptions blankA4)" thickRule]
  note b = C6_addLine [of "snd (addSpace (Some 270) blankA4)" thickRule]
  note c = C6_addLine [of blankA4 noLineOptions]
  have h1: "writeX (snd (addText fixedPitch ''ab'' noTextOptions blankA4))
     \<noteq> pagePaddingX (snd (addText fixedPitch ''ab'' noTextOptions blankA4))"
    unfolding afterAb by (simp add: blankA4_eq)
  have b1: "breakLine (snd (addText fixedPitch ''ab'' noTextOptions blankA4)) =
       (snd (addText fixedPitch ''ab'' noTextOptions blankA4))\<lparr>writeX := 10, writeY := 18.8\<rparr>"
    using a h1 unfolding afterAb by (simp add: blankA4_eq)
  have n1: "\<not> writeY (breakLine (snd (addText fixedPitch ''ab'' noTextOptions blankA4))) + (6 + 1.5)
         > pageHeight (snd (addText fixedPitch ''ab'' noTextOptions blankA4))
           - pagePaddingY (snd (addText fixedPitch ''ab'' noTextOptions blankA4))"
    unfolding b1 unfolding afterAb by (simp add: blankA4_eq)
  have r1: "snd (addLine thickRule (snd (addText fixedPitch ''ab'' noTextOptions blankA4))) =
       (snd (addText fixedPitch ''ab'' noTextOptions blankA4))
         \<lparr>pdf := pdf (snd (addText fixedPitch ''ab'' noTextOptions blankA4))
                 @ [PdfSetLineWidth 1.5, PdfSetDrawColor [255, 0, 0],
                    PdfLine 10 24.8 200 24.8],
           writeX := 10, writeY := 28.3\<rparr>"
    using a unfolding b1 unfolding afterAb
    by (simp add: Let_def thickRule_def blankA4_eq)
  have h2: "writeX (snd (addSpace (Some 270) blankA4))
              = pagePaddingX (snd (addSpace (Some 270) blankA4))"
    unfolding afterSpace270 by (simp add: blankA4_eq)
  have b2: "breakLine (snd (addSpace (Some 270) blankA4)) = snd (addSpace (Some 270) blankA4)"
    using b h2 by blast
  have n2: "writeY (breakLine (snd (addSpace (Some 270) blankA4))) + (6 + 1.5)
        > pageHeight (snd (addSpace (Some 270) blankA4))
          - pagePaddingY (snd (addSpace (Some 270) blankA4))"
    unfolding b2 unfolding afterSpace270 by (simp add: blankA4_eq)
  have r2: "snd (addLine thickRule (snd (addSpace (Some 270) blankA4))) =
       (snd (addSpace (Some 270) blankA4))
         \<lparr>pdf := pdf (snd (addSpace (Some 270) blankA4))
                 @ [PdfAddPage, PdfSetPage 2, PdfSetLineWidth 1.5, PdfSetDrawColor [255, 0, 0],
                    PdfLine 10 16 200 16],
           pageIndex := 2, writeY := 19.5\<rparr>"
    using b unfolding b2 unfolding afterSpace270
    by (simp add: Let_def thickRule_def blankA4_eq)
  have b3: "breakLine blankA4 = blankA4"
    using c by (simp add: blankA4_eq)
  have r3: "snd (addLine noLineOptions blankA4) =
       blankA4\<lparr>pdf := pdf blankA4 @ [PdfSetLineWidth 0.5, PdfSetDrawColor [10, 10, 10],
                                      PdfLine 10 14 200 14],
               writeY := 18.5\<rparr>"
    using c unfolding b3
    by (simp add: Let_def noLineOptions_def blankA4_eq)
  have y3: "writeY (snd (addLine noLineOptions blankA4)) = 10 + (4 + 0.5 + 4)
     \<and> pdf (snd (addLine noLineOptions blankA4)) =
       pdf blankA4 @ [PdfSetLineWidth 0.5, PdfSetDrawColor [10, 10, 10], PdfLine 10 14 200 14]"
    unfolding r3 by simp
  show ?thesis
    using h1 b1 n1 r1 h2 b2 n2 r2 y3 by blast
qed

text \<open>
  C8. \<open>addSpace(h)\<close> breaks the line if \<open>writeX\<close> is not at the left margin, paginates
  for \<open>h\<close>, moves \<open>writeY\<close> down by \<open>h\<close> and changes nothing else; \<open>writeX\<close> ends at
  the left margin. The height defaults to 5.
\<close>

theorem C8_addSpace:
  "(writeX s \<noteq> pagePaddingX s \<longrightarrow>
      breakLine s = s\<lparr>writeX := pagePaddingX s, writeY := writeY s + lastLineHeight s\<rparr>)
   \<and> (writeX s = pagePaddingX s \<longrightarrow> breakLine s = s)
   \<and> snd (addSpace h s) =
       (snd (checkWriteY (orDefault 5 h) (breakLine s)))
         \<lparr>writeY := writeY (snd (checkWriteY (orDefault 5 h) (breakLine s))) + orDefault 5 h\<rparr>
   \<and> writeX (snd (addSpace h s)) = pagePaddingX s
   \<and> fst (addSpace h s) = ReturnsThis"
proof -
  have x: "writeX (snd (checkWriteY (orDefault 5 h) (breakLine s))) = pagePaddingX s"
    by (simp add: writeX_checkWriteY writeX_breakLine)
  have p: "pagePaddingX (snd (checkWriteY (orDefault 5 h) (breakLine s))) = pagePaddingX s"
    using config_fields [OF config_breakLine [of s]]
      config_fields [OF config_checkWriteY [of "orDefault 5 h" "breakLine s"]]
    by simp
  have "snd (addSpace h s) =
       (snd (checkWriteY (orDefault 5 h) (breakLine s)))
         \<lparr>writeY := writeY (snd (checkWriteY (orDefault 5 h) (breakLine s))) + orDefault 5 h,
           writeX := pagePaddingX s\<rparr>"
    by (simp add: addSpace_def Let_def p)
  also have "\<dots> = (snd (checkWriteY (orDefault 5 h) (breakLine s)))
         \<lparr>writeY := writeY (snd (checkWriteY (orDefault 5 h) (breakLine s))) + orDefault 5 h\<rparr>"
    using x by simp
  finally show ?thesis
    by (simp add: breakLine_cases x addSpace_def Let_def)
qed

theorem C8_addSpace_witness:
  "writeX (snd (addText fixedPitch ''ab'' noTextOptions blankA4))
     \<noteq> pagePaddingX (snd (addText fixedPitch ''ab'' noTextOptions blankA4))
   \<and> breakLine (snd (addText fixedPitch ''ab'' noTextOptions blankA4)) =
       (snd (addText fixedPitch ''ab'' noTextOptions blankA4))\<lparr>writeX := 10, writeY := 10 + 8.8\<rparr>
   \<and> writeY (snd (addSpace (Some 7) (snd (addText fixedPitch ''ab'' noTextOptions blankA4))))
       = 10 + 8.8 + 7
   \<and> writeX (snd (addSpace (Some 7) (snd (addText fixedPitch ''ab'' noTextOptions blankA4))))
       = 10
   \<and> writeX blankA4 = pagePaddingX blankA4
   \<and> breakLine blankA4 = blankA4
   \<and> writeY (snd (addSpace (Some 300) blankA4)) = 10 + 300
   \<and> pageIndex (snd (addSpace (Some 300) blankA4)) = 2"
proof -
  note a = C8_addSpace [of "snd (addText fixedPitch ''ab'' noTextOptions blankA4)" "Some 7"]
  note b = C8_addSpace [of blankA4 "Some 300"]
  have h1: "writeX (snd (addText fixedPitch ''ab'' noTextOptions blankA4))
     \<noteq> pagePaddingX (snd (addText fixedPitch ''ab'' noTextOptions blankA4))"
    unfolding afterAb by (simp add: blankA4_eq)
  have h2: "writeX blankA4 = pagePaddingX blankA4"
    by (simp add: blankA4_eq)
  have b1: "breakLine (snd (addText fixedPitch ''ab'' noTextOptions blankA4)) =
       (snd (addText fixedPitch ''ab'' noTextOptions blankA4))\<lparr>writeX := 10, writeY := 10 + 8.8\<rparr>"
    using a h1 unfolding afterAb by (simp add: blankA4_eq)
  have b2: "breakLine blankA4 = blankA4"
    using b h2 by simp
  have s1: "snd (addSpace (Some 7) (snd (addText fixedPitch ''ab'' noTextOptions blankA4))) =
       (snd (checkWriteY 7 (breakLine (snd (addText fixedPitch ''ab'' noTextOptions blankA4)))))
         \<lparr>writeY := writeY (snd (checkWriteY 7
              (breakLine (snd (addText fixedPitch ''ab'' noTextOptions blankA4))))) + 7\<rparr>"
    using a by (simp add: orDefault_def)
  have y1: "writeY (snd (addSpace (Some 7) (snd (addText fixedPitch ''ab'' noTextOptions blankA4))))
       = 10 + 8.8 + 7"
    unfolding s1 b1 unfolding afterAb
    by (simp add: checkWriteY_snd blankA4_eq)
  have "writeX (snd (addSpace (Some 7) (snd (addText fixedPitch ''ab'' noTextOptions blankA4))))
       = pagePaddingX (snd (addText fixedPitch ''ab'' noTextOptions blankA4))"
    using a by blast
  moreover have "pagePaddingX (snd (addText fixedPitch ''ab'' noTextOptions blankA4)) = 10"
    unfolding afterAb by (simp add: blankA4_eq)
  ultimately
  have x1: "writeX (snd (addSpace (Some 7) (snd (addText fixedPitch ''ab'' noTextOptions blankA4))))
       = 10"
    by simp
  have s2: "snd (addSpace (Some 300) blankA4) =
       (snd (checkWriteY 300 (breakLine blankA4)))
         \<lparr>writeY := writeY (snd (checkWriteY 300 (breakLine blankA4))) + 300\<rparr>"
    using b by (simp add: orDefault_def)
  have y2: "writeY (snd (addSpace (Some 300) blankA4)) = 10 + 300
            \<and> pageIndex (snd (addSpace (Some 300) blankA4)) = 2"
    unfolding s2 b2 by (simp add: checkWriteY_snd blankA4_eq)
  show ?thesis
    using h1 h2 b1 b2 y1 x1 y2 by blast
qed

subsection \<open>Images\<close>

text \<open>
  C10. The \<open>format\<close> option has no effect on \<open>addImage\<close>: the call is the same
  whatever the option holds, and the image is handed to jsPDF with the format \<open>'PNG'\<close>.
\<close>

theorem C10_addImage_format:
  "addImage lib img (options\<lparr>i_format := f\<rparr>) s = addImage lib img options s
   \<and> pdf (snd (addImage lib img options s)) =
       pdf (snd (checkWriteY (imageHeight lib img options s)
                  ((breakLine s)\<lparr>writeX := (pageWidth s - orDefault (clientWidth s) (i_width options)) / 2\<rparr>)))
       @ [PdfAddImage img ''PNG''
            ((pageWidth s - orDefault (clientWidth s) (i_width options)) / 2)
            (writeY (snd (checkWriteY (imageHeight lib img options s)
                  ((breakLine s)\<lparr>writeX := (pageWidth s - orDefault (clientWidth s) (i_width options)) / 2\<rparr>))))
            (orDefault (clientWidth s) (i_width options))
            (imageHeight lib img options s)]"
  using config_fields [OF config_breakLine [of s]]
  by (simp add: addImage_def imageHeight_ignores Let_def pdf_do_def writeX_checkWriteY)

text \<open>
  C7. With \<open>height = 'auto'\<close> the rendered height is \<open>width * h0 / w0\<close>, and
  \<open>addImage\<close> ends with \<open>writeX\<close> at the left margin; but the \<open>top\<close> and \<open>bottom\<close>
  options have no effect at all. On a fresh A4 document an image of aspect ratio 2:1 added
  with width 190 and \<open>top = bottom = 4\<close> is drawn 190 by 95 at (10, 10) and moves \<open>writeY\<close>
  down by 95, not by 4 + 95 + 4.
\<close>

theorem C7_addImage_ignores_margins:
  "addImage lib img (options\<lparr>i_top := t, i_bottom := b\<rparr>) s = addImage lib img options s
   \<and> imageHeight lib img (options\<lparr>i_height := Some Auto\<rparr>) s =
       orDefault (clientWidth s) (i_width options) * snd (getImageProperties lib img)
         / fst (getImageProperties lib img)
   \<and> writeX (snd (addImage lib img options s)) = pagePaddingX s
   \<and> getImageProperties fixedPitch ''img'' = (2, 1)
   \<and> pdf (snd (addImage fixedPitch ''img''
        \<lparr>i_top = Some 4, i_bottom = Some 4, i_width = Some 190, i_height = Some Auto,
          i_format = None\<rparr> blankA4))
       = pdf blankA4 @ [PdfAddImage ''img'' ''PNG'' 10 10 190 95]
   \<and> writeY (snd (addImage fixedPitch ''img''
        \<lparr>i_top = Some 4, i_bottom = Some 4, i_width = Some 190, i_height = Some Auto,
          i_format = None\<rparr> blankA4))
       = writeY blankA4 + 95
   \<and> writeY (snd (addImage fixedPitch ''img''
        \<lparr>i_top = Some 4, i_bottom = Some 4, i_width = Some 190, i_height = Some Auto,
          i_format = None\<rparr> blankA4))
       \<noteq> writeY blankA4 + (4 + 95 + 4)"
proof -
  have 1: "addImage lib img (options\<lparr>i_top := t, i_bottom := b\<rparr>) s = addImage lib img options s"
    by (simp add: addImage_def imageHeight_ignores Let_def)
  have 2: "imageHeight lib img (options\<lparr>i_height := Some Auto\<rparr>) s =
       orDefault (clientWidth s) (i_width options) * snd (getImageProperties lib img)
         / fst (getImageProperties lib img)"
    by (simp add: imageHeight_def orDefault_def)
  have 3: "writeX (snd (addImage lib img options s)) = pagePaddingX s"
    using config_fields [OF config_breakLine [of s]]
      config_fields [OF config_checkWriteY [of "imageHeight lib img options s"
        "(breakLine s)\<lparr>writeX := (pageWidth s - orDefault (clientWidth s) (i_width options)) / 2\<rparr>"]]
    by (simp add: addImage_def Let_def pdf_do_def)
  have 4: "getImageProperties fixedPitch ''img'' = (2, 1)"
    by (simp add: fixedPitch_def)
  have 5: "snd (addImage fixedPitch ''img''
        \<lparr>i_top = Some 4, i_bottom = Some 4, i_width = Some 190, i_height = Some Auto,
          i_format = None\<rparr> blankA4)
       = blankA4\<lparr>pdf := pdf blankA4 @ [PdfAddImage ''img'' ''PNG'' 10 10 190 95],
                  writeY := 105\<rparr>"
    by (simp add: addImage_def imageHeight_def breakLine_def checkWriteY_def pdf_do_def
        clientWidth_def orDefault_def Let_def blankA4_eq 4)
  show ?thesis
    unfolding 5 using 1 2 3 4 by (simp add: blankA4_eq)
qed

subsection \<open>Chaining\<close>

text \<open>
  C9. \<open>addText\<close>, \<open>addArticle\<close>, \<open>addLine\<close>, \<open>addSpace\<close> and \<open>save\<close> return the
  instance; \<open>addImage\<close> returns \<open>undefined\<close>, so a chain that continues after
  \<open>addImage\<close> throws a TypeError.
\<close>

theorem C9_addImage_returns_undefined:
  "fst (addText lib text topts s) = ReturnsThis
   \<and> fst (addArticle lib text topts s) = ReturnsThis
   \<and> fst (addLine lopts s) = ReturnsThis
   \<and> fst (addSpace h s) = ReturnsThis
   \<and> fst (save filename s) = ReturnsThis
   \<and> fst (addImage lib img iopts s) = ReturnsUndefined
   \<and> chain fixedPitch [AddImage ''img'' noImageOptions, AddSpace None] (ReturnsThis, blankA4)
       = Inl TypeError"
  by (simp add: addText_def addArticle_def addLine_def addSpace_def save_def addImage_def
      Let_def)

subsection \<open>Where the cursor can be\<close>

text \<open>
  C5 (as amended). Take any document made by the constructor and any sequence of calls of
  \<open>addText\<close>, \<open>addArticle\<close>, \<open>addLine\<close>, \<open>addImage\<close>, \<open>addSpace\<close> and \<open>save\<close> on it,
  with a text measurer that returns no negative width and no negative \<open>right\<close> option.
  After the sequence \<open>writeX\<close> is at least \<open>pagePaddingX\<close>; and it is at most
  \<open>pageWidth - pagePaddingX\<close> provided the page number reached does not exceed
  \<open>pagePaddingX\<close> and the two paddings fit the page width. Right after a call
  \<open>checkWriteY(h)\<close> with \<open>h\<close> not negative and the two vertical paddings fitting the page
  height, \<open>writeY\<close> is at most \<open>pageHeight - pagePaddingY\<close>.
\<close>

theorem C5_cursor_bounds:
  assumes "\<forall>fs t. 0 \<le> getTextWidth lib fs t"
      and "\<forall>c \<in> set cs. rightMarginOk c"
  shows "pagePaddingX (constructor lib copts) \<le> writeX (statements lib cs (constructor lib copts))
     \<and> (real (pageIndex (statements lib cs (constructor lib copts)))
          \<le> pagePaddingX (constructor lib copts)
        \<and> 2 * pagePaddingX (constructor lib copts) \<le> pageWidth (constructor lib copts)
        \<longrightarrow> writeX (statements lib cs (constructor lib copts))
              \<le> pageWidth (constructor lib copts) - pagePaddingX (constructor lib copts))
     \<and> (0 \<le> h \<and> 2 * pagePaddingY u \<le> pageHeight u
        \<longrightarrow> writeY (snd (checkWriteY h u)) \<le> pageHeight u - pagePaddingY u)"
proof -
  have "inBounds (statements lib cs (constructor lib copts))"
    using inBounds_statements [OF assms(1) assms(2) inBounds_constructor] .
  then show ?thesis
    using config_fields [OF config_statements [of lib cs "constructor lib copts"]]
      checkWriteY_fits [of h u]
    by (simp add: inBounds_def)
qed

theorem C5_cursor_bounds_witness:
  "(\<forall>fs t. 0 \<le> getTextWidth fixedPitch fs t)
   \<and> list_all rightMarginOk
        [AddSpace (Some 300), AddLine noLineOptions,
         AddText ''ab'' (noTextOptions\<lparr>o_right := Some 3\<rparr>)]
   \<and> real (pageIndex (statements fixedPitch
        [AddSpace (Some 300), AddLine noLineOptions,
         AddText ''ab'' (noTextOptions\<lparr>o_right := Some 3\<rparr>)]
        (constructor fixedPitch noCtorOptions))) \<le> pagePaddingX (constructor fixedPitch noCtorOptions)
   \<and> 2 * pagePaddingX (constructor fixedPitch noCtorOptions)
        \<le> pageWidth (constructor fixedPitch noCtorOptions)
   \<and> writeX (statements fixedPitch
        [AddSpace (Some 300), AddLine noLineOptions,
         AddText ''ab'' (noTextOptions\<lparr>o_right := Some 3\<rparr>)]
        (constructor fixedPitch noCtorOptions)) = 17
   \<and> pagePaddingX (constructor fixedPitch noCtorOptions)
        \<le> writeX (statements fixedPitch
        [AddSpace (Some 300), AddLine noLineOptions,
         AddText ''ab'' (noTextOptions\<lparr>o_right := Some 3\<rparr>)]
        (constructor fixedPitch noCtorOptions))
   \<and> writeX (statements fixedPitch
        [AddSpace (Some 300), AddLine noLineOptions,
         AddText ''ab'' (noTextOptions\<lparr>o_right := Some 3\<rparr>)]
        (constructor fixedPitch noCtorOptions))
        \<le> pageWidth (constructor fixedPitch noCtorOptions)
            - pagePaddingX (constructor fixedPitch noCtorOptions)
   \<and> (0::real) \<le> 5 \<and> 2 * pagePaddingY blankA4 \<le> pageHeight blankA4
   \<and> writeY (snd (checkWriteY 5 blankA4)) \<le> pageHeight blankA4 - pagePaddingY blankA4"
proof -
  have ok: "\<forall>c \<in> set [AddSpace (Some 300), AddLine noLineOptions,
                         AddText ''ab'' (noTextOptions\<lparr>o_right := Some 3\<rparr>)]. rightMarginOk c"
    by (simp add: orDefault_def)
  have hy: "(0::real) \<le> 5 \<and> 2 * pagePaddingY blankA4 \<le> pageHeight blankA4"
    by (simp add: blankA4_eq)
  have hx: "real (pageIndex (statements fixedPitch
        [AddSpace (Some 300), AddLine noLineOptions,
         AddText ''ab'' (noTextOptions\<lparr>o_right := Some 3\<rparr>)]
        (constructor fixedPitch noCtorOptions))) \<le> pagePaddingX (constructor fixedPitch noCtorOptions)
     \<and> 2 * pagePaddingX (constructor fixedPitch noCtorOptions)
        \<le> pageWidth (constructor fixedPitch noCtorOptions)"
    unfolding blankA4_def [symmetric] demoRun by (simp add: blankA4_eq)
  have val: "writeX (statements fixedPitch
        [AddSpace (Some 300), AddLine noLineOptions,
         AddText ''ab'' (noTextOptions\<lparr>o_right := Some 3\<rparr>)]
        (constructor fixedPitch noCtorOptions)) = 17"
    unfolding blankA4_def [symmetric] demoRun by simp
  show ?thesis
    using C5_cursor_bounds [OF fixedPitch_nonneg ok, of noCtorOptions 5 blankA4]
      fixedPitch_nonneg hy hx val
    by (simp add: orDefault_def)
qed

text \<open>
  The claim as written has none of these provisos. On a fresh A4 document
  \<open>addText('', {right: -5})\<close> leaves \<open>writeX\<close> at 5, left of the margin at 10. After ten
  calls \<open>addSpace(300)\<close> the document is on page 11, and \<open>addText('', {right: 191})\<close>
  moves to page 12 and leaves \<open>writeX\<close> at 201, which is not above the wrap threshold
  \<open>190 + 12\<close> and is right of \<open>pageWidth - pagePaddingX = 200\<close>. With a vertical padding
  of 200 mm the first \<open>checkWriteY\<close> paginates and leaves \<open>writeY\<close> at 200, above
  \<open>pageHeight - pagePaddingY = 97\<close>; and a negative height (the line height of a negative
  font size) lets \<open>checkWriteY\<close> pass a \<open>writeY\<close> of 310 unchanged.
\<close>

theorem C5_cursor_counterexample:
  "writeX (statements fixedPitch [AddText [] (noTextOptions\<lparr>o_right := Some (- 5)\<rparr>)] blankA4)
     < pagePaddingX blankA4
   \<and> writeX (statements fixedPitch
        [AddSpace (Some 300), AddSpace (Some 300), AddSpace (Some 300), AddSpace (Some 300),
         AddSpace (Some 300), AddSpace (Some 300), AddSpace (Some 300), AddSpace (Some 300),
         AddSpace (Some 300), AddSpace (Some 300),
         AddText [] (noTextOptions\<lparr>o_right := Some 191\<rparr>)] blankA4)
     > pageWidth blankA4 - pagePaddingX blankA4
   \<and> writeY (snd (checkWriteY 8.8
        (constructor fixedPitch (noCtorOptions\<lparr>c_pagePaddingY := Some 200\<rparr>))))
     > pageHeight (constructor fixedPitch (noCtorOptions\<lparr>c_pagePaddingY := Some 200\<rparr>))
       - pagePaddingY (constructor fixedPitch (noCtorOptions\<lparr>c_pagePaddingY := Some 200\<rparr>))
   \<and> writeY (snd (checkWriteY (- 27.5) (snd (addSpace (Some 300) blankA4))))
     > pageHeight blankA4 - pagePaddingY blankA4"
proof -
  have 1: "statements fixedPitch [AddText [] (noTextOptions\<lparr>o_right := Some (- 5)\<rparr>)] blankA4
        = blankA4\<lparr>pdf := pdf blankA4 @ [PdfSetFontSize 16, PdfSetTextColor [10, 10, 10],
                                          PdfText [] 10 (10 + 16 * 0.4)],
                  writeX := 5, lastLineHeight := 8.8\<rparr>"
    by (simp add: run_defs)
  have 2: "constructor fixedPitch (noCtorOptions\<lparr>c_pagePaddingY := Some 200\<rparr>)
        = blankA4\<lparr>writeY := 200, pagePaddingY := 200\<rparr>"
    by (simp add: constructor_def noCtorOptions_def fixedPitch_def orDefault_def blankA4_eq)
  have 3: "snd (addSpace (Some 300) blankA4)
        = blankA4\<lparr>pdf := pdf blankA4 @ [PdfAddPage, PdfSetPage 2], pageIndex := 2,
                  writeY := 310\<rparr>"
    by (simp add: run_defs)
  show ?thesis
    unfolding elevenPages 1 2 3 by (simp add: checkWriteY_snd blankA4_eq)
qed

end
